theory Spec2Isabelle
  imports Main "HOL-Library.Word"
begin

section \<open>JavaScript strings and values\<close>

text \<open>
  A JavaScript string is a sequence of 16-bit code units. The page's literals are mostly
  Chinese, so they are written as code units; runs of ASCII go through \<open>ascii\<close>.
\<close>

type_synonym jsstring = "16 word list"

definition ascii :: "string \<Rightarrow> jsstring" where
  "ascii cs = map (\<lambda>c. of_nat (of_char c)) cs"

text \<open>
  \<open>String.prototype.trim\<close> strips WhiteSpace and LineTerminator code units from both ends:
  TAB, LF, VT, FF, CR, SP, NBSP, U+1680, U+2000..U+200A, U+2028, U+2029, U+202F, U+205F,
  U+3000 and U+FEFF.
\<close>

definition isWhiteSpace :: "16 word \<Rightarrow> bool" where
  "isWhiteSpace c \<longleftrightarrow>
     c \<in> {0x0009, 0x000A, 0x000B, 0x000C, 0x000D, 0x0020, 0x00A0, 0x1680,
          0x2000, 0x2001, 0x2002, 0x2003, 0x2004, 0x2005, 0x2006, 0x2007, 0x2008, 0x2009, 0x200A,
          0x2028, 0x2029, 0x202F, 0x205F, 0x3000, 0xFEFF}"

definition trim :: "jsstring \<Rightarrow> jsstring" where
  "trim s = rev (dropWhile isWhiteSpace (rev (dropWhile isWhiteSpace s)))"

text \<open>Truthiness of a value of type \<open>string | null | undefined\<close>: present and not empty.\<close>

fun truthy :: "jsstring option \<Rightarrow> bool" where
  "truthy None = False"
| "truthy (Some s) = (s \<noteq> [])"

text \<open>\<open>a || b\<close> where \<open>a\<close> may be missing, and where \<open>a\<close> is a string.\<close>

definition orElse :: "jsstring option \<Rightarrow> jsstring \<Rightarrow> jsstring" where
  "orElse a b = (case a of None \<Rightarrow> b | Some s \<Rightarrow> if s \<noteq> [] then s else b)"

definition strOr :: "jsstring \<Rightarrow> jsstring \<Rightarrow> jsstring" where
  "strOr a b = (if a \<noteq> [] then a else b)"

text \<open>
  Number to string inside a template literal, for the integers that occur here (an HTTP
  status, a \<open>Date.now()\<close> reading): decimal digits, with a minus sign below zero.
\<close>

definition digit :: "nat \<Rightarrow> 16 word" where
  "digit d = of_nat (48 + d)"

fun digitsOf :: "nat \<Rightarrow> jsstring" where
  "digitsOf n = (if n < 10 then [digit n] else digitsOf (n div 10) @ [digit (n mod 10)])"

definition numberToString :: "int \<Rightarrow> jsstring" where
  "numberToString i = (if i < 0 then 0x002D # digitsOf (nat (- i)) else digitsOf (nat i))"

text \<open>
  What a \<open>catch\<close> clause receives: an \<open>Error\<close> instance with its message, or some other
  value. \<open>error instanceof Error ? error.message : fallback\<close> is \<open>errorText\<close>.
\<close>

datatype thrown = ErrorInstance jsstring | NonError

fun errorText :: "thrown \<Rightarrow> jsstring \<Rightarrow> jsstring" where
  "errorText (ErrorInstance m) fallback = m"
| "errorText NonError fallback = fallback"

text \<open>The outcome of \<open>await response.json()\<close>.\<close>

datatype 'a json_result = JsonThrows thrown | Json 'a

section \<open>Data model of the page\<close>

datatype FrontendAnalysisStatus = FE_idle | FE_loading | FE_success | FE_error | FE_processing

datatype BackendTaskActualStatus = BE_pending | BE_processing | BE_completed | BE_failed

record TaskStatusResponse =
  task_id :: jsstring
  status :: BackendTaskActualStatus
  message :: jsstring
  html_url :: "jsstring option"
  html_content :: "jsstring option"
  error_details :: "jsstring option"

text \<open>An entry of \<open>chatMessages\<close>: \<open>{ id: string, sender: string, text: string }\<close>.\<close>

record ChatMessage =
  id' :: jsstring
  sender :: jsstring
  text' :: jsstring

datatype role = System | User | Assistant

record ChatCompletionMessageParam =
  role :: role
  content :: jsstring

text \<open>The requests the page can issue, in the order it issues them (\<open>netLog\<close>).\<close>

datatype request =
    StartAnalysisRequest jsstring
  | AnalysisStatusRequest jsstring
  | ChatCompletionRequest "ChatCompletionMessageParam list"

text \<open>
  The React state of \<open>ChatbotPage\<close>, and what the browser holds for it beside the state:
  \<open>pollInterval\<close> is the interval registered by the polling effect, with its identifier and
  the task id its callback closed over (\<open>None\<close>: no timer); \<open>intervalCount\<close> is the number
  of intervals created so far, the next identifier \<open>setInterval\<close> returns; \<open>awaiting\<close> are
  the interval callbacks that have sent their request and wait for its reply, each with the
  interval identifier and the task id it closed over; \<open>netLog\<close> records every request
  sent. The file-upload and web-search state is left out: no handler below reads it.
\<close>

record page =
  analysisStatus :: FrontendAnalysisStatus
  taskId :: "jsstring option"
  analysisResultUrl :: "jsstring option"
  htmlReportContent :: "jsstring option"
  statusMessage :: jsstring
  errorMessage :: "jsstring option"
  chatMessages :: "ChatMessage list"
  userInput :: jsstring
  reportRequirementsInput :: jsstring
  pollInterval :: "(nat \<times> jsstring) option"
  intervalCount :: nat
  awaiting :: "(nat \<times> jsstring) list"
  netLog :: "request list"

subsection \<open>String literals of the page\<close>

definition BACKEND_URL :: jsstring where
  "BACKEND_URL = ascii ''http://localhost:5001''"

text \<open>"Click the button to start analysing the document."\<close>
definition msgInitial :: jsstring where
  "msgInitial = [0x70B9, 0x51FB, 0x6309, 0x94AE, 0x5F00, 0x59CB, 0x5206, 0x6790, 0x6587, 0x6863, 0x3002]"

text \<open>The default report requirement ("generate the May hand-hygiene training report").\<close>
definition defaultRequirements :: jsstring where
  "defaultRequirements = [0x751F, 0x6210] @ ascii ''5'' @ [0x6708, 0x624B, 0x536B, 0x751F, 0x57F9,
     0x8BAD, 0x4E0E, 0x4E13, 0x9879, 0x8003, 0x6838, 0x62A5, 0x544A]"

text \<open>"Requesting the start of the analysis..."\<close>
definition msgRequestingStart :: jsstring where
  "msgRequestingStart = [0x6B63, 0x5728, 0x8BF7, 0x6C42, 0x5F00, 0x59CB, 0x5206, 0x6790] @ ascii ''...''"

text \<open>"The report requirement must not be empty."\<close>
definition msgRequirementsEmpty :: jsstring where
  "msgRequirementsEmpty = [0x62A5, 0x544A, 0x751F, 0x6210, 0x9700, 0x6C42, 0x4E0D, 0x80FD, 0x4E3A, 0x7A7A, 0x3002]"

text \<open>"Enter a report requirement and retry."\<close>
definition msgEnterRequirements :: jsstring where
  "msgEnterRequirements = [0x8BF7, 0x8F93, 0x5165, 0x62A5, 0x544A, 0x751F, 0x6210, 0x9700, 0x6C42,
     0x540E, 0x91CD, 0x8BD5, 0x3002]"

text \<open>"The analysis task has started and is being processed..."\<close>
definition msgTaskStarted :: jsstring where
  "msgTaskStarted = [0x5206, 0x6790, 0x4EFB, 0x52A1, 0x5DF2, 0x542F, 0x52A8, 0xFF0C, 0x6B63, 0x5728,
     0x5904, 0x7406, 0x4E2D] @ ascii ''...''"

text \<open>"Starting the analysis failed, check the backend service."\<close>
definition msgStartFailedDetail :: jsstring where
  "msgStartFailedDetail = [0x542F, 0x52A8, 0x5206, 0x6790, 0x5931, 0x8D25, 0xFF0C, 0x8BF7, 0x68C0,
     0x67E5, 0x540E, 0x7AEF, 0x670D, 0x52A1, 0x3002]"

text \<open>"Starting the analysis failed."\<close>
definition msgStartFailed :: jsstring where
  "msgStartFailed = [0x5206, 0x6790, 0x542F, 0x52A8, 0x5931, 0x8D25, 0x3002]"

text \<open>
  The 404 message: "Task ID <id> not found. It may have expired or the backend service
  may have restarted."
\<close>
definition notFoundPrefix :: jsstring where
  "notFoundPrefix = [0x4EFB, 0x52A1] @ ascii ''ID ''"

definition notFoundSuffix :: jsstring where
  "notFoundSuffix = ascii '' '' @ [0x672A, 0x627E, 0x5230, 0x3002, 0x53EF, 0x80FD, 0x5DF2, 0x8FC7,
     0x671F, 0x6216, 0x540E, 0x7AEF, 0x670D, 0x52A1, 0x5DF2, 0x91CD, 0x542F, 0x3002]"

definition notFoundText :: "jsstring \<Rightarrow> jsstring" where
  "notFoundText tid = notFoundPrefix @ tid @ notFoundSuffix"

definition httpErrorText :: "int \<Rightarrow> jsstring" where
  "httpErrorText st = ascii ''HTTP error! status: '' @ numberToString st"

text \<open>"Fetching the status..."\<close>
definition msgFetchingStatus :: jsstring where
  "msgFetchingStatus = [0x6B63, 0x5728, 0x83B7, 0x53D6, 0x72B6, 0x6001] @ ascii ''...''"

text \<open>"Analysis completed, the report content is loaded!"\<close>
definition msgDoneContent :: jsstring where
  "msgDoneContent = [0x5206, 0x6790, 0x6210, 0x529F, 0x5B8C, 0x6210, 0xFF0C, 0x62A5, 0x544A, 0x5185,
     0x5BB9, 0x5DF2, 0x52A0, 0x8F7D, 0xFF01]"

text \<open>"Analysis completed, the report link is available!"\<close>
definition msgDoneLink :: jsstring where
  "msgDoneLink = [0x5206, 0x6790, 0x6210, 0x529F, 0x5B8C, 0x6210, 0xFF0C, 0x62A5, 0x544A, 0x94FE,
     0x63A5, 0x5DF2, 0x83B7, 0x53D6, 0xFF01]"

text \<open>"Analysis completed, but no report output was found."\<close>
definition msgDoneNoOutput :: jsstring where
  "msgDoneNoOutput = [0x5206, 0x6790, 0x6210, 0x529F, 0x5B8C, 0x6210, 0xFF0C, 0x4F46, 0x672A, 0x627E,
     0x5230, 0x62A5, 0x544A, 0x8F93, 0x51FA, 0x3002]"

text \<open>"An unknown error occurred during the analysis."\<close>
definition msgUnknownError :: jsstring where
  "msgUnknownError = [0x5206, 0x6790, 0x8FC7, 0x7A0B, 0x4E2D, 0x53D1, 0x751F, 0x672A, 0x77E5, 0x9519,
     0x8BEF, 0x3002]"

text \<open>"Analysis failed."\<close>
definition msgAnalysisFailed :: jsstring where
  "msgAnalysisFailed = [0x5206, 0x6790, 0x5931, 0x8D25, 0x3002]"

text \<open>"The task is waiting to run..."\<close>
definition msgTaskWaiting :: jsstring where
  "msgTaskWaiting = [0x4EFB, 0x52A1, 0x6B63, 0x5728, 0x7B49, 0x5F85, 0x6267, 0x884C] @ ascii ''...''"

text \<open>"Fetching the analysis status failed."\<close>
definition msgStatusFetchFailed :: jsstring where
  "msgStatusFetchFailed = [0x83B7, 0x53D6, 0x5206, 0x6790, 0x72B6, 0x6001, 0x5931, 0x8D25, 0x3002]"

text \<open>"An error occurred while fetching the analysis status."\<close>
definition msgStatusFetchError :: jsstring where
  "msgStatusFetchError = [0x83B7, 0x53D6, 0x5206, 0x6790, 0x72B6, 0x6001, 0x65F6, 0x51FA, 0x9519, 0x3002]"

text \<open>The state after the first render: the initial values of the \<open>useState\<close> calls.\<close>

definition initialPage :: page where
  "initialPage = \<lparr> analysisStatus = FE_idle, taskId = None, analysisResultUrl = None,
     htmlReportContent = None, statusMessage = msgInitial, errorMessage = None,
     chatMessages = [], userInput = [], reportRequirementsInput = defaultRequirements,
     pollInterval = None, intervalCount = 0, awaiting = [], netLog = [] \<rparr>"

section \<open>The task lifecycle\<close>

text \<open>
  The handlers below are those of the page's latest revision. Its earlier revision with the
  streaming chat has the same polling effect, interval callback and \<open>handleSendMessage\<close>;
  only its \<open>handleStartAnalysis\<close> differs (it takes no prompt and checks nothing), and the
  interval is 3 s instead of 10 s. \<open>handleStartAnalysis\<close> and \<open>handleSendMessage\<close> are
  taken from call to return, with the outcome of their request as a parameter; the interval
  callbacks are taken apart at their \<open>await\<close>, since several of them run at once.
\<close>

subsection \<open>The polling effect\<close>

text \<open>
  \<open>clearInterval(intervalId)\<close> removes the interval of that identifier and no other. It
  stops future ticks only: a callback that is already waiting for its reply goes on.
\<close>

definition clearInterval :: "nat \<Rightarrow> page \<Rightarrow> page" where
  "clearInterval intervalId s =
     (case pollInterval s of
        None \<Rightarrow> s
      | Some (i, tid) \<Rightarrow> if i = intervalId then s\<lparr> pollInterval := None \<rparr> else s)"

text \<open>
  \<open>useEffect(..., [taskId, analysisStatus])\<close>: after a render in which a dependency changed,
  the cleanup of the previous run clears its interval and the body runs again, starting a new
  interval when \<open>taskId && (analysisStatus === 'processing' || analysisStatus === 'loading')\<close>.
  With unchanged dependencies nothing happens. \<open>prev\<close> is the state of the previous render.
\<close>

definition pollEffect :: "page \<Rightarrow> page \<Rightarrow> page" where
  "pollEffect prev s =
     (if taskId prev = taskId s \<and> analysisStatus prev = analysisStatus s then s
      else case taskId s of
             None \<Rightarrow> s\<lparr> pollInterval := None \<rparr>
           | Some tid \<Rightarrow>
               if tid \<noteq> [] \<and> (analysisStatus s = FE_processing \<or> analysisStatus s = FE_loading)
               then s\<lparr> pollInterval := Some (intervalCount s, tid),
                       intervalCount := Suc (intervalCount s) \<rparr>
               else s\<lparr> pollInterval := None \<rparr>)"

subsection \<open>handleStartAnalysis\<close>

text \<open>What the backend answers to \<open>POST /api/start-analysis\<close>.\<close>

datatype start_result =
    StartFetchThrows thrown
  | StartNotOk int "jsstring option json_result"
  | StartOk "jsstring option json_result"

text \<open>
  The \<open>try\<close> block up to the first state update: either it throws, or it yields
  \<open>data.task_id\<close>. The body of a response that is not ok is read for its \<open>error\<close> field.
\<close>

fun startOutcome :: "start_result \<Rightarrow> thrown + jsstring option" where
  "startOutcome (StartFetchThrows t) = Inl t"
| "startOutcome (StartNotOk st (JsonThrows t)) = Inl t"
| "startOutcome (StartNotOk st (Json err)) = Inl (ErrorInstance (orElse err (httpErrorText st)))"
| "startOutcome (StartOk (JsonThrows t)) = Inl t"
| "startOutcome (StartOk (Json tid)) = Inr tid"

text \<open>The five state updates at the top of the handler.\<close>

definition beginAnalysis :: "page \<Rightarrow> page" where
  "beginAnalysis s = s\<lparr> analysisStatus := FE_loading, statusMessage := msgRequestingStart,
     errorMessage := None, analysisResultUrl := None, htmlReportContent := None \<rparr>"

definition handleStartAnalysis :: "page \<Rightarrow> start_result \<Rightarrow> page" where
  "handleStartAnalysis s r =
     (let s1 = beginAnalysis s in
      if trim (reportRequirementsInput s) = [] then
        pollEffect s (s1\<lparr> analysisStatus := FE_idle, errorMessage := Some msgRequirementsEmpty,
                          statusMessage := msgEnterRequirements \<rparr>)
      else
        let s2 = (pollEffect s s1)\<lparr> netLog := netLog s1 @ [StartAnalysisRequest (reportRequirementsInput s)] \<rparr>
        in case startOutcome r of
             Inr tid \<Rightarrow>
               pollEffect s2 (s2\<lparr> taskId := tid, analysisStatus := FE_processing,
                                  statusMessage := msgTaskStarted \<rparr>)
           | Inl e \<Rightarrow>
               pollEffect s2 (s2\<lparr> analysisStatus := FE_error,
                                  errorMessage := Some (errorText e msgStartFailedDetail),
                                  statusMessage := msgStartFailed \<rparr>))"

subsection \<open>The interval callback\<close>

text \<open>
  \<open>setInterval(async () => { ... await fetch(...) ... }, 10000)\<close>: at each tick a callback
  starts, sends its request and waits for the reply. The timer does not wait for it, so
  several callbacks can be waiting at once, and their replies arrive in any order. When a
  reply arrives the rest of that callback runs on the state as it then is, with the task id
  and the interval identifier the callback closed over.
\<close>

text \<open>What the backend answers to \<open>GET /api/analysis-status/<id>\<close>.\<close>

datatype poll_result =
    PollFetchThrows thrown
  | PollNotOk int "jsstring option json_result"
  | PollOk "TaskStatusResponse json_result"

text \<open>
  The \<open>try\<close> block up to the first state update: either it throws, or it yields the
  response. A response that is not ok throws the 404 text, or else the \<open>error\<close> field of its
  body, or else the HTTP status text.
\<close>

fun pollOutcome :: "jsstring \<Rightarrow> poll_result \<Rightarrow> thrown + TaskStatusResponse" where
  "pollOutcome tid (PollFetchThrows t) = Inl t"
| "pollOutcome tid (PollNotOk st body) =
     (if st = 404 then Inl (ErrorInstance (notFoundText tid))
      else case body of
             JsonThrows t \<Rightarrow> Inl t
           | Json err \<Rightarrow> Inl (ErrorInstance (orElse err (httpErrorText st))))"
| "pollOutcome tid (PollOk (JsonThrows t)) = Inl t"
| "pollOutcome tid (PollOk (Json d)) = Inr d"

text \<open>The ternary \<open>data.html_url ? `${BACKEND_URL}${data.html_url}` : null\<close>.\<close>

definition qualifiedUrl :: "jsstring option \<Rightarrow> jsstring option" where
  "qualifiedUrl u = (if truthy u then Some (BACKEND_URL @ orElse u []) else None)"

text \<open>The branches on \<open>data.status\<close>.\<close>

definition applyStatus :: "TaskStatusResponse \<Rightarrow> nat \<Rightarrow> page \<Rightarrow> page" where
  "applyStatus d intervalId s =
     (case status d of
        BE_completed \<Rightarrow>
          (let s1 =
             (if truthy (html_content d) then
                s\<lparr> htmlReportContent := html_content d, analysisResultUrl := None,
                   statusMessage := strOr (message d) msgDoneContent \<rparr>
              else if truthy (html_url d) then
                s\<lparr> analysisResultUrl := qualifiedUrl (html_url d),
                   htmlReportContent := None,
                   statusMessage := strOr (message d) msgDoneLink \<rparr>
              else
                s\<lparr> statusMessage := strOr (message d) msgDoneNoOutput \<rparr>)
           in clearInterval intervalId (s1\<lparr> analysisStatus := FE_success, taskId := None \<rparr>))
      | BE_failed \<Rightarrow>
          clearInterval intervalId
            (s\<lparr> analysisStatus := FE_error,
                errorMessage := Some (orElse (error_details d) (strOr (message d) msgUnknownError)),
                statusMessage := strOr (message d) msgAnalysisFailed,
                taskId := None \<rparr>)
      | BE_processing \<Rightarrow> s\<lparr> analysisStatus := FE_processing \<rparr>
      | BE_pending \<Rightarrow>
          s\<lparr> analysisStatus := FE_processing, statusMessage := strOr (message d) msgTaskWaiting \<rparr>)"

text \<open>The callback up to its \<open>await\<close>: the request goes out and the callback waits.\<close>

definition pollTick :: "page \<Rightarrow> page" where
  "pollTick s =
     (case pollInterval s of
        None \<Rightarrow> s
      | Some (i, tid) \<Rightarrow>
          s\<lparr> netLog := netLog s @ [AnalysisStatusRequest tid], awaiting := awaiting s @ [(i, tid)] \<rparr>)"

text \<open>The callback from its \<open>await\<close> on, with the outcome \<open>r\<close> of the request.\<close>

definition pollResume :: "nat \<Rightarrow> jsstring \<Rightarrow> page \<Rightarrow> poll_result \<Rightarrow> page" where
  "pollResume intervalId tid s r =
     (case pollOutcome tid r of
        Inr d \<Rightarrow> applyStatus d intervalId (s\<lparr> statusMessage := strOr (message d) msgFetchingStatus \<rparr>)
      | Inl e \<Rightarrow>
          clearInterval intervalId
            (s\<lparr> analysisStatus := FE_error,
                errorMessage := Some (errorText e msgStatusFetchFailed),
                statusMessage := msgStatusFetchError,
                taskId := None \<rparr>))"

text \<open>
  What happens to the poll cycle: the timer fires (nothing happens when there is none), or
  the \<open>k\<close>-th waiting callback gets its reply, runs to its end, and the page renders again.
  A reply for a callback that does not exist is no event.
\<close>

datatype poll_event = Tick | Reply nat poll_result

fun pollEvent :: "page \<Rightarrow> poll_event \<Rightarrow> page" where
  "pollEvent s Tick = pollTick s"
| "pollEvent s (Reply k r) =
     (if k < length (awaiting s) then
        (case awaiting s ! k of
           (i, tid) \<Rightarrow>
             pollEffect s
               (pollResume i tid (s\<lparr> awaiting := take k (awaiting s) @ drop (Suc k) (awaiting s) \<rparr>) r))
      else s)"

definition pollEvents :: "page \<Rightarrow> poll_event list \<Rightarrow> page" where
  "pollEvents s evs = foldl pollEvent s evs"

section \<open>The conversation\<close>

text \<open>"Sending the message to the model..."\<close>
definition msgSendingToModel :: jsstring where
  "msgSendingToModel = [0x6B63, 0x5728, 0x5411, 0x5927, 0x6A21, 0x578B, 0x53D1, 0x9001, 0x6D88, 0x606F]
     @ ascii ''...''"

text \<open>"The model is thinking..."\<close>
definition msgModelThinking :: jsstring where
  "msgModelThinking = [0x5927, 0x6A21, 0x578B, 0x6B63, 0x5728, 0x601D, 0x8003] @ ascii ''...''"

text \<open>"The model has replied."\<close>
definition msgModelReplied :: jsstring where
  "msgModelReplied = [0x5927, 0x6A21, 0x578B, 0x5DF2, 0x56DE, 0x590D, 0x3002]"

text \<open>"Communicating with the model or processing its reply failed."\<close>
definition msgChatFailedDetail :: jsstring where
  "msgChatFailedDetail = [0x4E0E, 0x5927, 0x6A21, 0x578B, 0x901A, 0x4FE1, 0x5931, 0x8D25, 0x6216,
     0x5904, 0x7406, 0x56DE, 0x590D, 0x65F6, 0x51FA, 0x9519, 0x3002]"

text \<open>"Error: "\<close>
definition errorPrefix :: jsstring where
  "errorPrefix = [0x9519, 0x8BEF] @ ascii '': ''"

text \<open>"Sending the message or processing the reply failed."\<close>
definition msgChatFailed :: jsstring where
  "msgChatFailed = [0x6D88, 0x606F, 0x53D1, 0x9001, 0x6216, 0x5904, 0x7406, 0x56DE, 0x590D, 0x5931,
     0x8D25, 0x3002]"

definition systemInlinePrefix :: jsstring where
  "systemInlinePrefix = ascii (''You are an AI assistant. The user is viewing an HTML analysis report directly within their interface. ''
     @ ''Please answer their questions based on this document context that they are seeing. ''
     @ ''If a question seems unrelated to the document, use your general knowledge. ''
     @ ''Keep responses helpful and concise. The actual HTML content is: '')"

definition systemUrlPrefix :: jsstring where
  "systemUrlPrefix = ascii ''You are an AI assistant. The user has analyzed a document, and the analysis report is available at: ''"

definition systemUrlSuffix :: jsstring where
  "systemUrlSuffix = ascii (''. Please answer questions based on this document. ''
     @ ''If the question seems unrelated to the document, use your general knowledge. ''
     @ ''Keep responses helpful and concise.'')"

text \<open>The system message: the inline report if there is one, else the report's URL, else none.\<close>

definition systemMessages :: "page \<Rightarrow> ChatCompletionMessageParam list" where
  "systemMessages s =
     (if truthy (htmlReportContent s) then
        [\<lparr> role = System, content = systemInlinePrefix @ orElse (htmlReportContent s) [] \<rparr>]
      else if truthy (analysisResultUrl s) then
        [\<lparr> role = System,
           content = systemUrlPrefix @ orElse (analysisResultUrl s) [] @ systemUrlSuffix \<rparr>]
      else [])"

text \<open>\<open>Array.prototype.slice(start)\<close>: a negative \<open>start\<close> counts from the end.\<close>

definition slice :: "int \<Rightarrow> 'a list \<Rightarrow> 'a list" where
  "slice start xs =
     (let len = int (length xs);
          k = (if start < 0 then max (len + start) 0 else min start len)
      in drop (nat k) xs)"

text \<open>
  The body of the \<open>forEach\<close>: an entry of sender \<open>'user'\<close> or \<open>'bot'\<close> is pushed, any other
  entry is skipped.
\<close>

definition historyEntry :: "ChatMessage \<Rightarrow> ChatCompletionMessageParam option" where
  "historyEntry msg =
     (if sender msg = ascii ''user'' then Some \<lparr> role = User, content = text' msg \<rparr>
      else if sender msg = ascii ''bot'' then Some \<lparr> role = Assistant, content = text' msg \<rparr>
      else None)"

definition historyMessages :: "ChatMessage list \<Rightarrow> ChatCompletionMessageParam list" where
  "historyMessages msgs =
     List.map_filter historyEntry (slice (- 6) (filter (\<lambda>msg. trim (text' msg) \<noteq> []) msgs))"

text \<open>
  What the streaming completion call does: the content deltas of the chunks it yields
  (\<open>None\<close>: a chunk without content), and how it ends: normally (\<open>failure = None\<close>) or by
  throwing. A call that is rejected before any chunk has \<open>chunks = []\<close> and a failure.
\<close>

record chat_stream =
  chunks :: "jsstring option list"
  failure :: "thrown option"

text \<open>The update \<open>prevMessages.map(msg => msg.id === botMessageId ? {...msg, text} : msg)\<close>.\<close>

definition setTextById :: "jsstring \<Rightarrow> jsstring \<Rightarrow> ChatMessage list \<Rightarrow> ChatMessage list" where
  "setTextById botMessageId t msgs =
     map (\<lambda>msg. if id' msg = botMessageId then msg\<lparr> text' := t \<rparr> else msg) msgs"

text \<open>The delta of a chunk: \<open>chunk.choices[0]?.delta?.content || ""\<close>.\<close>

definition contentDelta :: "jsstring option \<Rightarrow> jsstring" where
  "contentDelta c = orElse c []"

text \<open>The \<open>for await\<close> loop, with \<open>accumulatedBotText\<close> as the accumulator \<open>acc\<close>.\<close>

fun consumeStream :: "jsstring \<Rightarrow> jsstring \<Rightarrow> page \<Rightarrow> jsstring option list \<Rightarrow> page" where
  "consumeStream botMessageId acc s [] = s"
| "consumeStream botMessageId acc s (c # cs) =
     (if contentDelta c \<noteq> [] then
        consumeStream botMessageId (acc @ contentDelta c)
          (s\<lparr> chatMessages := setTextById botMessageId (acc @ contentDelta c) (chatMessages s) \<rparr>) cs
      else consumeStream botMessageId acc s cs)"

text \<open>
  \<open>handleSendMessage\<close>. \<open>nowUser\<close> and \<open>nowBot\<close> are the two readings of \<open>Date.now()\<close>. The
  handler changes neither \<open>taskId\<close> nor \<open>analysisStatus\<close>, so the polling effect does not run.
\<close>

definition userMessageId :: "int \<Rightarrow> jsstring" where
  "userMessageId now = ascii ''user-'' @ numberToString now"

definition botMessageIdOf :: "int \<Rightarrow> jsstring" where
  "botMessageIdOf now = ascii ''bot-'' @ numberToString now"

definition handleSendMessage :: "page \<Rightarrow> int \<Rightarrow> int \<Rightarrow> chat_stream \<Rightarrow> page" where
  "handleSendMessage s nowUser nowBot st =
     (if trim (userInput s) = [] then s
      else
        let currentUserInput = userInput s;
            newUserMessage = \<lparr> id' = userMessageId nowUser, sender = ascii ''user'',
                               text' = currentUserInput \<rparr>;
            s1 = s\<lparr> chatMessages := chatMessages s @ [newUserMessage], userInput := [],
                    statusMessage := msgSendingToModel, errorMessage := None \<rparr>;
            apiMessages = systemMessages s @ historyMessages (chatMessages s)
                          @ [\<lparr> role = User, content = currentUserInput \<rparr>];
            botMessageId = botMessageIdOf nowBot;
            s2 = s1\<lparr> chatMessages := chatMessages s1
                        @ [\<lparr> id' = botMessageId, sender = ascii ''bot'', text' = [] \<rparr>] \<rparr>;
            s3 = s2\<lparr> statusMessage := msgModelThinking,
                     netLog := netLog s2 @ [ChatCompletionRequest apiMessages] \<rparr>;
            s4 = consumeStream botMessageId [] s3 (chunks st)
        in case failure st of
             None \<Rightarrow> s4\<lparr> statusMessage := msgModelReplied \<rparr>
           | Some e \<Rightarrow>
               (let errorResponseMessage = errorText e msgChatFailedDetail in
                s4\<lparr> chatMessages :=
                       setTextById botMessageId (errorPrefix @ errorResponseMessage) (chatMessages s4),
                    statusMessage := msgChatFailed,
                    errorMessage := Some errorResponseMessage \<rparr>))"

text \<open>
  A turn of a chat session: the user types \<open>typed\<close> into the input box (\<open>setUserInput\<close>) and
  sends it; the clock shows \<open>clockUser\<close> and \<open>clockBot\<close> at the two readings, and the
  completion call behaves as \<open>reply\<close>.
\<close>

record turn =
  typed :: jsstring
  clockUser :: int
  clockBot :: int
  reply :: chat_stream

definition sendTurn :: "page \<Rightarrow> turn \<Rightarrow> page" where
  "sendTurn s t = handleSendMessage (s\<lparr> userInput := typed t \<rparr>) (clockUser t) (clockBot t) (reply t)"

definition chatSession :: "page \<Rightarrow> turn list \<Rightarrow> page" where
  "chatSession s ts = foldl sendTurn s ts"

section \<open>Derived notions and example runs\<close>



text \<open>
  The timer belongs to a stored task: without a task identifier there is no interval. The
  first render and every handler and poll event keep it so.
\<close>

definition timerSound :: "page \<Rightarrow> bool" where
  "timerSound s \<longleftrightarrow> (taskId s = None \<longrightarrow> pollInterval s = None)"




text \<open>A run of the page: the prompt "summarise the document" is accepted as task \<open>abc123\<close>.\<close>

definition examplePrompt :: jsstring where
  "examplePrompt = [0x603B, 0x7ED3, 0x6587, 0x6863]"

definition exampleTask :: jsstring where
  "exampleTask = ascii ''abc123''"

definition exampleInitial :: page where
  "exampleInitial = initialPage\<lparr> reportRequirementsInput := examplePrompt \<rparr>"

definition exampleStart :: page where
  "exampleStart = handleStartAnalysis exampleInitial (StartOk (Json (Some exampleTask)))"

definition exampleResponse :: TaskStatusResponse where
  "exampleResponse = \<lparr> task_id = exampleTask, status = BE_processing, message = ascii ''working'',
     html_url = None, html_content = None, error_details = None \<rparr>"

definition stillProcessing :: poll_result where
  "stillProcessing = PollOk (Json exampleResponse)"

text \<open>
  Two ticks pass before any reply: two requests are under way. The second is answered
  first, with \<open>processing\<close>; the first is still waiting.
\<close>

definition examplePolling :: "poll_event list" where
  "examplePolling = [Tick, Tick, Reply 1 stillProcessing]"

definition completedInline :: TaskStatusResponse where
  "completedInline = exampleResponse\<lparr> status := BE_completed, message := ascii ''done'',
     html_content := Some (ascii ''<h1>OK</h1>'') \<rparr>"

definition completedLink :: TaskStatusResponse where
  "completedLink = exampleResponse\<lparr> status := BE_completed, message := ascii ''done'',
     html_url := Some (ascii ''/reports/abc123.html'') \<rparr>"

definition completedEmptyContent :: TaskStatusResponse where
  "completedEmptyContent = exampleResponse\<lparr> status := BE_completed, message := ascii ''done'',
     html_url := Some (ascii ''/reports/abc123.html''), html_content := Some [] \<rparr>"

definition completedEmptyUrl :: TaskStatusResponse where
  "completedEmptyUrl = exampleResponse\<lparr> status := BE_completed, message := ascii ''done'',
     html_url := Some [] \<rparr>"

definition completedNoPayload :: TaskStatusResponse where
  "completedNoPayload = exampleResponse\<lparr> status := BE_completed, message := ascii ''done'' \<rparr>"

definition failedParse :: TaskStatusResponse where
  "failedParse = exampleResponse\<lparr> status := BE_failed, message := ascii ''analysis failed'',
     error_details := Some (ascii ''parse error'') \<rparr>"

definition failedSilent :: TaskStatusResponse where
  "failedSilent = exampleResponse\<lparr> status := BE_failed, message := [] \<rparr>"

text \<open>A request that fails in the network, and a chat call that does.\<close>

definition networkFailure :: poll_result where
  "networkFailure = PollFetchThrows (ErrorInstance (ascii ''Failed to fetch''))"


text \<open>
  A reply with status 500 whose body brings, as its \<open>error\<close> field, the very text the page
  writes for a 404 of task \<open>abc123\<close>.
\<close>

definition serverErrorSameText :: poll_result where
  "serverErrorSameText = PollNotOk 500 (Json (Some (notFoundText exampleTask)))"

text \<open>The only senders the page ever writes.\<close>

definition knownSenders :: "ChatMessage list \<Rightarrow> bool" where
  "knownSenders msgs \<longleftrightarrow> (\<forall>msg\<in>set msgs. sender msg = ascii ''user'' \<or> sender msg = ascii ''bot'')"

text \<open>
  The history as the specification words it: of the entries whose trimmed text is not empty,
  the last six, in transcript order, each sent under the role of its sender.
\<close>

definition lastSixNonEmpty :: "ChatMessage list \<Rightarrow> ChatMessage list" where
  "lastSixNonEmpty msgs =
     (let nonEmpty = filter (\<lambda>msg. trim (text' msg) \<noteq> []) msgs
      in drop (length nonEmpty - 6) nonEmpty)"

definition asParam :: "ChatMessage \<Rightarrow> ChatCompletionMessageParam" where
  "asParam msg = \<lparr> role = (if sender msg = ascii ''user'' then User else Assistant),
                   content = text' msg \<rparr>"

text \<open>The turns of a session that are sent at all: those whose input is not blank.\<close>

definition sentTurns :: "turn list \<Rightarrow> turn list" where
  "sentTurns ts = filter (\<lambda>t. trim (typed t) \<noteq> []) ts"

text \<open>The example run continued: the report arrives inline, and the user chats.\<close>

definition exampleDone :: page where
  "exampleDone = pollEvents exampleStart (examplePolling @ [Reply 0 (PollOk (Json completedInline))])"

definition exampleReply :: chat_stream where
  "exampleReply = \<lparr> chunks = [Some (ascii ''Hel''), None, Some (ascii ''lo''), Some []],
                    failure = None \<rparr>"

definition exampleTurn :: turn where
  "exampleTurn = \<lparr> typed = ascii ''hi'', clockUser = 1000, clockBot = 1000, reply = exampleReply \<rparr>"

definition laterTurn :: turn where
  "laterTurn = \<lparr> typed = ascii ''more'', clockUser = 2000, clockBot = 2003,
                  reply = \<lparr> chunks = [Some (ascii ''Sure'')], failure = None \<rparr> \<rparr>"

text \<open>A second turn sent while the clock shows what it showed at the first.\<close>

definition sameClockTurn :: turn where
  "sameClockTurn = \<lparr> typed = ascii ''more'', clockUser = 1000, clockBot = 1000,
                      reply = \<lparr> chunks = [Some (ascii ''Sure'')], failure = None \<rparr> \<rparr>"

text \<open>A transcript of eight entries, four questions and their answers.\<close>

definition eightEntries :: "ChatMessage list" where
  "eightEntries =
     [\<lparr> id' = ascii ''user-1'', sender = ascii ''user'', text' = ascii ''q1'' \<rparr>,
      \<lparr> id' = ascii ''bot-1'', sender = ascii ''bot'', text' = ascii ''a1'' \<rparr>,
      \<lparr> id' = ascii ''user-2'', sender = ascii ''user'', text' = ascii ''q2'' \<rparr>,
      \<lparr> id' = ascii ''bot-2'', sender = ascii ''bot'', text' = ascii ''a2'' \<rparr>,
      \<lparr> id' = ascii ''user-3'', sender = ascii ''user'', text' = ascii ''q3'' \<rparr>,
      \<lparr> id' = ascii ''bot-3'', sender = ascii ''bot'', text' = ascii ''a3'' \<rparr>,
      \<lparr> id' = ascii ''user-4'', sender = ascii ''user'', text' = ascii ''q4'' \<rparr>,
      \<lparr> id' = ascii ''bot-4'', sender = ascii ''bot'', text' = ascii ''a4'' \<rparr>]"

definition exampleChat :: page where
  "exampleChat = exampleDone\<lparr> chatMessages := eightEntries, userInput := ascii ''q5'' \<rparr>"

text \<open>The page with the report shown and three spaces typed, into either input.\<close>

definition exampleBlank :: page where
  "exampleBlank = exampleDone\<lparr> userInput := ascii ''   '', reportRequirementsInput := ascii ''   '' \<rparr>"



definition turnIds :: "turn \<Rightarrow> jsstring list" where
  "turnIds t = [userMessageId (clockUser t), botMessageIdOf (clockBot t)]"


section \<open>Facts about the building blocks\<close>

lemma trim_empty_iff: "trim s = [] \<longleftrightarrow> (\<forall>c\<in>set s. isWhiteSpace c)"
proof
  assume "trim s = []"
  then have all: "\<forall>x\<in>set (dropWhile isWhiteSpace s). isWhiteSpace x"
    by (simp add: trim_def)
  have "dropWhile isWhiteSpace s = []"
  proof (rule ccontr)
    assume ne: "dropWhile isWhiteSpace s \<noteq> []"
    then have "\<not> isWhiteSpace (hd (dropWhile isWhiteSpace s))" by (rule hd_dropWhile)
    moreover have "hd (dropWhile isWhiteSpace s) \<in> set (dropWhile isWhiteSpace s)"
      using ne by simp
    ultimately show False using all by blast
  qed
  then show "\<forall>c\<in>set s. isWhiteSpace c" by simp
next
  assume "\<forall>c\<in>set s. isWhiteSpace c"
  then show "trim s = []"
    by (auto simp: trim_def dest: set_dropWhileD)
qed

text \<open>The effect and \<open>clearInterval\<close> touch the timer only.\<close>

lemma pollEffect_fields [simp]:
  "analysisStatus (pollEffect prev s) = analysisStatus s"
  "taskId (pollEffect prev s) = taskId s"
  "analysisResultUrl (pollEffect prev s) = analysisResultUrl s"
  "htmlReportContent (pollEffect prev s) = htmlReportContent s"
  "statusMessage (pollEffect prev s) = statusMessage s"
  "errorMessage (pollEffect prev s) = errorMessage s"
  "chatMessages (pollEffect prev s) = chatMessages s"
  "userInput (pollEffect prev s) = userInput s"
  "reportRequirementsInput (pollEffect prev s) = reportRequirementsInput s"
  "awaiting (pollEffect prev s) = awaiting s"
  "netLog (pollEffect prev s) = netLog s"
  by (simp_all add: pollEffect_def split: option.split)

lemma clearInterval_fields [simp]:
  "analysisStatus (clearInterval i s) = analysisStatus s"
  "taskId (clearInterval i s) = taskId s"
  "analysisResultUrl (clearInterval i s) = analysisResultUrl s"
  "htmlReportContent (clearInterval i s) = htmlReportContent s"
  "statusMessage (clearInterval i s) = statusMessage s"
  "errorMessage (clearInterval i s) = errorMessage s"
  "awaiting (clearInterval i s) = awaiting s"
  "netLog (clearInterval i s) = netLog s"
  by (simp_all add: clearInterval_def split: option.split)

lemma clearInterval_timer:
  "pollInterval (clearInterval i s) = None \<or> pollInterval (clearInterval i s) = pollInterval s"
  by (simp add: clearInterval_def split: option.split)

text \<open>
  Where the timer is sound and a handler has done no more to it than clear it, the effect
  leaves it sound; and with no task identifier left it leaves no timer.
\<close>

lemma timerSound_effect:
  assumes "timerSound prev" and "pollInterval s = None \<or> pollInterval s = pollInterval prev"
  shows "timerSound (pollEffect prev s)"
  using assms by (auto simp: timerSound_def pollEffect_def split: option.split)

lemma pollEffect_no_task:
  assumes "timerSound prev" and "taskId s = None"
    and "pollInterval s = None \<or> pollInterval s = pollInterval prev"
  shows "pollInterval (pollEffect prev s) = None"
  using assms by (auto simp: timerSound_def pollEffect_def)

text \<open>The rest of a callback, field by field, for each kind of reply.\<close>

lemma resume_timer:
  "pollInterval (pollResume i tid s r) = None \<or> pollInterval (pollResume i tid s r) = pollInterval s"
  by (cases "pollOutcome tid r")
     (auto simp: pollResume_def applyStatus_def clearInterval_def Let_def
           split: BackendTaskActualStatus.split option.split)

lemma resume_taskId:
  "taskId (pollResume i tid s r) = None \<or> taskId (pollResume i tid s r) = taskId s"
  by (cases "pollOutcome tid r")
     (auto simp: pollResume_def applyStatus_def Let_def split: BackendTaskActualStatus.split)

lemma resume_netLog [simp]: "netLog (pollResume i tid s r) = netLog s"
  by (cases "pollOutcome tid r")
     (auto simp: pollResume_def applyStatus_def Let_def split: BackendTaskActualStatus.split)

lemma resume_awaiting [simp]: "awaiting (pollResume i tid s r) = awaiting s"
  by (cases "pollOutcome tid r")
     (auto simp: pollResume_def applyStatus_def Let_def split: BackendTaskActualStatus.split)

lemma resume_completed_inline:
  assumes "status d = BE_completed" and "truthy (html_content d)"
  shows "htmlReportContent (pollResume i tid s (PollOk (Json d))) = html_content d"
    and "analysisResultUrl (pollResume i tid s (PollOk (Json d))) = None"
    and "errorMessage (pollResume i tid s (PollOk (Json d))) = errorMessage s"
    and "analysisStatus (pollResume i tid s (PollOk (Json d))) = FE_success"
    and "taskId (pollResume i tid s (PollOk (Json d))) = None"
  using assms by (simp_all add: pollResume_def applyStatus_def)

lemma resume_completed_link:
  assumes "status d = BE_completed" and "\<not> truthy (html_content d)" and "html_url d = Some u"
    and "u \<noteq> []"
  shows "analysisResultUrl (pollResume i tid s (PollOk (Json d))) = Some (BACKEND_URL @ u)"
    and "htmlReportContent (pollResume i tid s (PollOk (Json d))) = None"
    and "errorMessage (pollResume i tid s (PollOk (Json d))) = errorMessage s"
    and "analysisStatus (pollResume i tid s (PollOk (Json d))) = FE_success"
    and "taskId (pollResume i tid s (PollOk (Json d))) = None"
  using assms by (simp_all add: pollResume_def applyStatus_def qualifiedUrl_def orElse_def)


lemma resume_failed:
  assumes "status d = BE_failed"
  shows "errorMessage (pollResume i tid s (PollOk (Json d)))
           = Some (orElse (error_details d) (strOr (message d) msgUnknownError))"
    and "analysisResultUrl (pollResume i tid s (PollOk (Json d))) = analysisResultUrl s"
    and "htmlReportContent (pollResume i tid s (PollOk (Json d))) = htmlReportContent s"
    and "analysisStatus (pollResume i tid s (PollOk (Json d))) = FE_error"
    and "taskId (pollResume i tid s (PollOk (Json d))) = None"
  using assms by (simp_all add: pollResume_def applyStatus_def)

lemma resume_thrown:
  assumes "pollOutcome tid r = Inl e"
  shows "errorMessage (pollResume i tid s r) = Some (errorText e msgStatusFetchFailed)"
    and "analysisResultUrl (pollResume i tid s r) = analysisResultUrl s"
    and "htmlReportContent (pollResume i tid s r) = htmlReportContent s"
    and "analysisStatus (pollResume i tid s r) = FE_error"
    and "taskId (pollResume i tid s r) = None"
  using assms by (simp_all add: pollResume_def)


text \<open>A reply that arrives for the \<open>k\<close>-th waiting callback.\<close>

lemma reply_step:
  assumes "k < length (awaiting s)" and "awaiting s ! k = (i, tid)"
  shows "pollEvent s (Reply k r) =
           pollEffect s (pollResume i tid (s\<lparr> awaiting := take k (awaiting s) @ drop (Suc k) (awaiting s) \<rparr>) r)"
  using assms by simp

lemma reply_timer_stopped:
  assumes "timerSound s" and "k < length (awaiting s)" and "awaiting s ! k = (i, tid)"
    and "taskId (pollResume i tid (s\<lparr> awaiting := take k (awaiting s) @ drop (Suc k) (awaiting s) \<rparr>) r) = None"
  shows "pollInterval (pollEvent s (Reply k r)) = None"
  unfolding reply_step [OF assms(2,3)]
  using resume_timer [of i tid "s\<lparr> awaiting := take k (awaiting s) @ drop (Suc k) (awaiting s) \<rparr>" r]
  by (intro pollEffect_no_task [OF assms(1) assms(4)]) simp

lemma pollEvents_Nil [simp]: "pollEvents s [] = s"
  by (simp add: pollEvents_def)

lemma pollEvents_Cons [simp]: "pollEvents s (e # evs) = pollEvents (pollEvent s e) evs"
  by (simp add: pollEvents_def)

lemma pollEvents_snoc: "pollEvents s (evs @ [e]) = pollEvent (pollEvents s evs) e"
  by (simp add: pollEvents_def)

lemma pollEvents_append: "pollEvents s (xs @ ys) = pollEvents (pollEvents s xs) ys"
  by (simp add: pollEvents_def)

text \<open>The timer stays sound through every poll event and every handler.\<close>

lemma timerSound_event:
  assumes "timerSound s"
  shows "timerSound (pollEvent s e)"
proof (cases e)
  case Tick
  then show ?thesis using assms by (auto simp: pollTick_def timerSound_def split: option.split)
next
  case (Reply k r)
  show ?thesis
  proof (cases "k < length (awaiting s)")
    case False
    then show ?thesis using assms Reply by simp
  next
    case True
    obtain i tid where at: "awaiting s ! k = (i, tid)" by (cases "awaiting s ! k")
    show ?thesis
      unfolding Reply reply_step [OF True at]
      using resume_timer [of i tid "s\<lparr> awaiting := take k (awaiting s) @ drop (Suc k) (awaiting s) \<rparr>" r]
      by (intro timerSound_effect [OF assms]) simp
  qed
qed

lemma timerSound_events:
  assumes "timerSound s"
  shows "timerSound (pollEvents s evs)"
  using assms by (induction evs arbitrary: s) (simp_all add: timerSound_event)

lemma timerSound_initial: "timerSound initialPage"
  by (simp add: timerSound_def initialPage_def)

lemma timerSound_start:
  assumes "timerSound s"
  shows "timerSound (handleStartAnalysis s r)"
proof -
  have one: "timerSound (pollEffect s (beginAnalysis s))"
    by (rule timerSound_effect [OF assms]) (simp add: beginAnalysis_def)
  show ?thesis
  proof (cases "trim (reportRequirementsInput s) = []")
    case True
    have "timerSound (pollEffect s ((beginAnalysis s)\<lparr> analysisStatus := FE_idle,
        errorMessage := Some msgRequirementsEmpty, statusMessage := msgEnterRequirements \<rparr>))"
      by (rule timerSound_effect [OF assms]) (simp add: beginAnalysis_def)
    then show ?thesis using True by (simp add: handleStartAnalysis_def)
  next
    case False
    let ?s2 = "(pollEffect s (beginAnalysis s))\<lparr> netLog := netLog (beginAnalysis s)
        @ [StartAnalysisRequest (reportRequirementsInput s)] \<rparr>"
    have two: "timerSound ?s2" using one by (simp add: timerSound_def)
    show ?thesis
    proof (cases "startOutcome r")
      case (Inl e)
      have "timerSound (pollEffect ?s2 (?s2\<lparr> analysisStatus := FE_error,
          errorMessage := Some (errorText e msgStartFailedDetail), statusMessage := msgStartFailed \<rparr>))"
        by (rule timerSound_effect [OF two]) simp
      then show ?thesis using False Inl by (simp add: handleStartAnalysis_def Let_def)
    next
      case (Inr tid)
      have "timerSound (pollEffect ?s2 (?s2\<lparr> taskId := tid, analysisStatus := FE_processing,
          statusMessage := msgTaskStarted \<rparr>))"
        by (rule timerSound_effect [OF two]) simp
      then show ?thesis using False Inr by (simp add: handleStartAnalysis_def Let_def)
    qed
  qed
qed





text \<open>
  Once the task identifier and the timer are gone, no poll event brings them back and no
  request is sent any more, whatever replies still arrive.
\<close>

lemma stopped_event:
  assumes "taskId s = None" and "pollInterval s = None"
  shows "taskId (pollEvent s e) = None \<and> pollInterval (pollEvent s e) = None
       \<and> netLog (pollEvent s e) = netLog s"
proof (cases e)
  case Tick
  then show ?thesis using assms by (simp add: pollTick_def)
next
  case (Reply k r)
  show ?thesis
  proof (cases "k < length (awaiting s)")
    case False
    then show ?thesis using assms Reply by simp
  next
    case True
    obtain i tid where at: "awaiting s ! k = (i, tid)" by (cases "awaiting s ! k")
    let ?s0 = "s\<lparr> awaiting := take k (awaiting s) @ drop (Suc k) (awaiting s) \<rparr>"
    have t: "taskId (pollResume i tid ?s0 r) = None"
      using resume_taskId [of i tid ?s0 r] assms(1) by auto
    have sound: "timerSound s" using assms by (simp add: timerSound_def)
    have "pollInterval (pollEvent s (Reply k r)) = None"
      by (rule reply_timer_stopped [OF sound True at t])
    moreover have "taskId (pollEvent s (Reply k r)) = None"
      unfolding reply_step [OF True at] using t by simp
    moreover have "netLog (pollEvent s (Reply k r)) = netLog s"
      unfolding reply_step [OF True at] by simp
    ultimately show ?thesis using Reply by simp
  qed
qed

lemma stopped_events:
  assumes "taskId s = None" and "pollInterval s = None"
  shows "taskId (pollEvents s evs) = None \<and> pollInterval (pollEvents s evs) = None
       \<and> netLog (pollEvents s evs) = netLog s"
  using assms
proof (induction evs arbitrary: s)
  case Nil
  then show ?case by simp
next
  case (Cons e evs)
  from stopped_event [OF Cons.prems, of e]
  have a: "taskId (pollEvent s e) = None" and b: "pollInterval (pollEvent s e) = None"
    and c: "netLog (pollEvent s e) = netLog s" by simp_all
  from Cons.IH [OF a b] c show ?case by simp
qed

text \<open>The texts the page writes itself for a failed poll are three different texts.\<close>

lemma notFoundText_not_http: "notFoundText tid \<noteq> httpErrorText st"
  by (simp add: notFoundText_def notFoundPrefix_def httpErrorText_def ascii_def)

lemma notFoundText_not_fallback: "notFoundText tid \<noteq> msgStatusFetchFailed"
  by (simp add: notFoundText_def notFoundPrefix_def msgStatusFetchFailed_def)

text \<open>Evaluating the example run.\<close>

lemmas example_defs =
  exampleStart_def exampleTask_def examplePrompt_def exampleResponse_def stillProcessing_def
  completedInline_def completedLink_def completedEmptyContent_def completedEmptyUrl_def
  completedNoPayload_def failedParse_def failedSilent_def initialPage_def exampleInitial_def
  examplePolling_def networkFailure_def

lemmas run_defs =
  handleStartAnalysis_def beginAnalysis_def pollEffect_def clearInterval_def pollTick_def
  pollResume_def applyStatus_def qualifiedUrl_def trim_def isWhiteSpace_def ascii_def
  strOr_def orElse_def


lemma exampleStart_sound: "timerSound exampleStart"
  unfolding exampleStart_def
  by (intro timerSound_start) (simp add: exampleInitial_def timerSound_def initialPage_def)

lemma example_awaiting: "awaiting (pollEvents exampleStart examplePolling) = [(0, exampleTask)]"
  by (simp add: example_defs run_defs)


text \<open>
  A reply that arrives late is applied like any other. Here the second request is answered
  first, with the finished report; the reply to the first request, \<open>processing\<close>, arrives
  after it and sets the status back, while the report stays and nothing polls any more.
\<close>

lemma late_reply_is_applied:
  "analysisStatus (pollEvents exampleStart [Tick, Tick, Reply 1 (PollOk (Json completedInline))]) = FE_success
   \<and> analysisStatus (pollEvents exampleStart
         [Tick, Tick, Reply 1 (PollOk (Json completedInline)), Reply 0 stillProcessing]) = FE_processing
   \<and> htmlReportContent (pollEvents exampleStart
         [Tick, Tick, Reply 1 (PollOk (Json completedInline)), Reply 0 stillProcessing])
       = Some (ascii ''<h1>OK</h1>'')
   \<and> taskId (pollEvents exampleStart
         [Tick, Tick, Reply 1 (PollOk (Json completedInline)), Reply 0 stillProcessing]) = None
   \<and> pollInterval (pollEvents exampleStart
         [Tick, Tick, Reply 1 (PollOk (Json completedInline)), Reply 0 stillProcessing]) = None"
  by (simp add: example_defs run_defs)

section \<open>Facts about the conversation\<close>

declare digitsOf.simps [simp del]

lemma digit_unat: "d < 10 \<Longrightarrow> unat (digit d) = 48 + d"
  unfolding digit_def by (subst unat_of_nat) simp

lemma digit_inj:
  assumes "a < 10" and "b < 10" and "digit a = digit b"
  shows "a = b"
proof -
  have "unat (digit a) = unat (digit b)" using assms(3) by (rule arg_cong)
  then have "48 + a = 48 + b" using assms(1,2) by (simp only: digit_unat)
  then show ?thesis by simp
qed

lemma digit_not_minus: "d < 10 \<Longrightarrow> digit d \<noteq> 0x2D"
proof
  assume "d < 10" and "digit d = 0x2D"
  then have "unat (digit d) = 45" by simp
  moreover have "unat (digit d) = 48 + d" using \<open>d < 10\<close> by (rule digit_unat)
  ultimately show False by simp
qed

lemma digitsOf_nonempty [simp]: "digitsOf n \<noteq> []" "[] \<noteq> digitsOf n"
  by (subst digitsOf.simps, simp)+

lemma digitsOf_no_minus: "0x2D \<notin> set (digitsOf n)"
proof (induction n rule: digitsOf.induct)
  case (1 n)
  show ?case
  proof (cases "n < 10")
    case True
    then show ?thesis using digit_not_minus [of n]
      by (subst digitsOf.simps) auto
  next
    case False
    then show ?thesis using "1.IH" digit_not_minus [of "n mod 10"]
      by (subst digitsOf.simps) auto
  qed
qed

lemma digitsOf_inj: "digitsOf a = digitsOf b \<Longrightarrow> a = b"
proof (induction a arbitrary: b rule: digitsOf.induct)
  case (1 a)
  show ?case
  proof (cases "a < 10")
    case a: True
    show ?thesis
    proof (cases "b < 10")
      case True
      with a "1.prems" show ?thesis
        by (simp add: digitsOf.simps [of a] digitsOf.simps [of b] digit_inj)
    next
      case False
      with a "1.prems" show ?thesis
        by (simp add: digitsOf.simps [of a] digitsOf.simps [of b])
    qed
  next
    case a: False
    show ?thesis
    proof (cases "b < 10")
      case True
      with a "1.prems" show ?thesis
        by (simp add: digitsOf.simps [of a] digitsOf.simps [of b])
    next
      case False
      with a "1.prems" have eq: "digitsOf (a div 10) = digitsOf (b div 10)"
        and dg: "digit (a mod 10) = digit (b mod 10)"
        by (simp_all add: digitsOf.simps [of a] digitsOf.simps [of b])
      from "1.IH" [OF a eq] have "a div 10 = b div 10" .
      moreover from dg have "a mod 10 = b mod 10" by (simp add: digit_inj)
      ultimately show ?thesis by (metis div_mult_mod_eq)
    qed
  qed
qed

lemma numberToString_inj: "numberToString a = numberToString b \<Longrightarrow> a = b"
proof -
  assume eq: "numberToString a = numberToString b"
  have hd_pos: "\<And>n. hd (digitsOf n) \<noteq> 0x2D"
    using digitsOf_no_minus digitsOf_nonempty by (metis hd_in_set)
  show ?thesis
  proof (cases "a < 0")
    case a: True
    show ?thesis
    proof (cases "b < 0")
      case True
      with a eq have "nat (- a) = nat (- b)" by (simp add: numberToString_def digitsOf_inj)
      with a True show ?thesis by simp
    next
      case False
      with a eq have "0x2D # digitsOf (nat (- a)) = digitsOf (nat b)"
        by (simp add: numberToString_def)
      then have "hd (digitsOf (nat b)) = 0x2D" by (metis list.sel(1))
      with hd_pos show ?thesis by simp
    qed
  next
    case a: False
    show ?thesis
    proof (cases "b < 0")
      case True
      with a eq have "digitsOf (nat a) = 0x2D # digitsOf (nat (- b))"
        by (simp add: numberToString_def)
      then have "hd (digitsOf (nat a)) = 0x2D" by (metis list.sel(1))
      with hd_pos show ?thesis by simp
    next
      case False
      with a eq have "nat a = nat b" by (simp add: numberToString_def digitsOf_inj)
      with a False show ?thesis by simp
    qed
  qed
qed

lemma userMessageId_inj: "userMessageId a = userMessageId b \<Longrightarrow> a = b"
  by (simp add: userMessageId_def numberToString_inj)

lemma botMessageIdOf_inj: "botMessageIdOf a = botMessageIdOf b \<Longrightarrow> a = b"
  by (simp add: botMessageIdOf_def numberToString_inj)

lemma user_bot_ids_differ: "userMessageId a \<noteq> botMessageIdOf b"
  by (simp add: userMessageId_def botMessageIdOf_def ascii_def)

text \<open>The update by identifier keeps every entry's place, identifier and sender.\<close>

lemma setTextById_length [simp]: "length (setTextById b t msgs) = length msgs"
  by (simp add: setTextById_def)

lemma setTextById_ids [simp]: "map id' (setTextById b t msgs) = map id' msgs"
  by (simp add: setTextById_def)

lemma setTextById_senders [simp]: "map sender (setTextById b t msgs) = map sender msgs"
  by (simp add: setTextById_def)

lemma setTextById_again [simp]: "setTextById b t (setTextById b u msgs) = setTextById b t msgs"
  by (simp add: setTextById_def)

lemma setTextById_snoc:
  "setTextById b t (msgs @ [m]) =
     setTextById b t msgs @ [if id' m = b then m\<lparr> text' := t \<rparr> else m]"
  by (simp add: setTextById_def)

text \<open>The loop only rewrites texts: after it the entries hold the accumulated reply.\<close>

lemma consumeStream_chatMessages:
  "chatMessages (consumeStream b acc s cs) =
     (if concat (map contentDelta cs) = [] then chatMessages s
      else setTextById b (acc @ concat (map contentDelta cs)) (chatMessages s))"
proof (induction cs arbitrary: acc s)
  case Nil
  show ?case by simp
next
  case (Cons c cs)
  show ?case
  proof (cases "contentDelta c = []")
    case True
    then show ?thesis using Cons.IH [of acc s] by simp
  next
    case False
    note step = Cons.IH [of "acc @ contentDelta c"
        "s\<lparr> chatMessages := setTextById b (acc @ contentDelta c) (chatMessages s) \<rparr>"]
    show ?thesis
    proof (cases "concat (map contentDelta cs) = []")
      case True
      show ?thesis by (simp add: True False step del: concat_eq_Nil_conv)
    next
      case rest: False
      show ?thesis by (simp add: rest False step del: concat_eq_Nil_conv)
    qed
  qed
qed

lemma consumeStream_other_fields [simp]:
  "netLog (consumeStream b acc s cs) = netLog s"
  "errorMessage (consumeStream b acc s cs) = errorMessage s"
  "statusMessage (consumeStream b acc s cs) = statusMessage s"
  by (induction cs arbitrary: acc s) (simp_all add: Let_def)


text \<open>What one call of the handler does to the transcript and to the request log.\<close>

lemma send_blank: "trim (userInput s) = [] \<Longrightarrow> handleSendMessage s nu nb st = s"
  by (simp add: handleSendMessage_def)

lemma send_chatMessages:
  assumes "trim (userInput s) \<noteq> []" and "failure st = None"
  shows "chatMessages (handleSendMessage s nu nb st) =
     (if concat (map contentDelta (chunks st)) = []
      then chatMessages s @ [\<lparr> id' = userMessageId nu, sender = ascii ''user'', text' = userInput s \<rparr>,
                             \<lparr> id' = botMessageIdOf nb, sender = ascii ''bot'', text' = [] \<rparr>]
      else setTextById (botMessageIdOf nb) (concat (map contentDelta (chunks st)))
             (chatMessages s @ [\<lparr> id' = userMessageId nu, sender = ascii ''user'', text' = userInput s \<rparr>,
                                \<lparr> id' = botMessageIdOf nb, sender = ascii ''bot'', text' = [] \<rparr>]))"
  using assms
  by (simp add: handleSendMessage_def Let_def consumeStream_chatMessages del: concat_eq_Nil_conv)

lemma send_ids:
  assumes "trim (userInput s) \<noteq> []"
  shows "map id' (chatMessages (handleSendMessage s nu nb st)) =
           map id' (chatMessages s) @ [userMessageId nu, botMessageIdOf nb]"
  using assms
  by (cases "failure st")
     (simp_all add: handleSendMessage_def Let_def consumeStream_chatMessages del: concat_eq_Nil_conv)

lemma send_senders:
  assumes "trim (userInput s) \<noteq> []"
  shows "map sender (chatMessages (handleSendMessage s nu nb st)) =
           map sender (chatMessages s) @ [ascii ''user'', ascii ''bot'']"
  using assms
  by (cases "failure st")
     (simp_all add: handleSendMessage_def Let_def consumeStream_chatMessages del: concat_eq_Nil_conv)

lemma send_netLog:
  assumes "trim (userInput s) \<noteq> []"
  shows "netLog (handleSendMessage s nu nb st) =
           netLog s @ [ChatCompletionRequest (systemMessages s @ historyMessages (chatMessages s)
                        @ [\<lparr> role = User, content = userInput s \<rparr>])]"
  using assms
  by (cases "failure st") (simp_all add: handleSendMessage_def Let_def)


lemma user_is_not_bot: "ascii ''user'' \<noteq> ascii ''bot''"
  by (simp add: ascii_def)

text \<open>The history that the code builds is the history of the specification.\<close>

lemma slice_last_six: "slice (- 6) xs = drop (length xs - 6) xs"
  by (simp add: slice_def Let_def nat_diff_distrib' max_def)

lemma map_filter_known:
  assumes "knownSenders msgs"
  shows "List.map_filter historyEntry msgs = map asParam msgs"
  using assms
  by (induction msgs)
     (auto simp: knownSenders_def map_filter_simps historyEntry_def asParam_def user_is_not_bot)

lemma knownSenders_subset: "knownSenders msgs \<Longrightarrow> set xs \<subseteq> set msgs \<Longrightarrow> knownSenders xs"
  by (auto simp: knownSenders_def)

lemma lastSixNonEmpty_subset: "set (lastSixNonEmpty msgs) \<subseteq> set msgs"
  by (auto simp: lastSixNonEmpty_def Let_def dest: in_set_dropD)

lemma historyMessages_spec:
  assumes "knownSenders msgs"
  shows "historyMessages msgs = map asParam (lastSixNonEmpty msgs)"
proof -
  have "historyMessages msgs = List.map_filter historyEntry (lastSixNonEmpty msgs)"
    by (simp add: historyMessages_def lastSixNonEmpty_def slice_last_six Let_def)
  also have "\<dots> = map asParam (lastSixNonEmpty msgs)"
    by (rule map_filter_known) (rule knownSenders_subset [OF assms lastSixNonEmpty_subset])
  finally show ?thesis .
qed

lemma knownSenders_by_sender:
  "knownSenders msgs \<longleftrightarrow> set (map sender msgs) \<subseteq> {ascii ''user'', ascii ''bot''}"
  by (auto simp: knownSenders_def)

lemma send_knownSenders:
  assumes "knownSenders (chatMessages s)"
  shows "knownSenders (chatMessages (handleSendMessage s nu nb st))"
proof (cases "trim (userInput s) = []")
  case True
  then show ?thesis using assms by (simp add: send_blank)
next
  case False
  show ?thesis
    using assms unfolding knownSenders_by_sender send_senders [OF False] by simp
qed

text \<open>The identifiers of a session's transcript, turn by turn.\<close>

lemma sendTurn_ids:
  "map id' (chatMessages (sendTurn s t)) =
     map id' (chatMessages s) @ (if trim (typed t) = [] then [] else turnIds t)"
  by (simp add: sendTurn_def send_blank send_ids turnIds_def)

lemma chatSession_ids:
  "map id' (chatMessages (chatSession s ts)) = map id' (chatMessages s) @ concat (map turnIds (sentTurns ts))"
proof (induction ts arbitrary: s)
  case Nil
  show ?case by (simp add: chatSession_def sentTurns_def)
next
  case (Cons t ts)
  have "chatSession s (t # ts) = chatSession (sendTurn s t) ts" by (simp add: chatSession_def)
  then show ?case using Cons.IH [of "sendTurn s t"] by (simp add: sendTurn_ids sentTurns_def)
qed

lemma turnIds_distinct:
  assumes "distinct (map clockUser ts)" and "distinct (map clockBot ts)"
  shows "distinct (concat (map turnIds ts))"
  using assms
proof (induction ts)
  case Nil
  show ?case by simp
next
  case (Cons t ts)
  have rest: "set (concat (map turnIds ts)) = userMessageId ` clockUser ` set ts \<union> botMessageIdOf ` clockBot ` set ts"
    by (auto simp: turnIds_def)
  have u: "userMessageId (clockUser t) \<notin> set (concat (map turnIds ts))"
    using Cons.prems(1) unfolding rest
    by (auto dest: userMessageId_inj simp: user_bot_ids_differ)
  have b: "botMessageIdOf (clockBot t) \<notin> set (concat (map turnIds ts))"
    using Cons.prems(2) unfolding rest
    by (auto dest: botMessageIdOf_inj simp: user_bot_ids_differ [symmetric])
  show ?case using Cons u b by (simp add: turnIds_def user_bot_ids_differ)
qed

lemma distinct_ids_unique_target:
  assumes "distinct (map id' msgs)" and "m \<in> set msgs"
  shows "filter (\<lambda>x. id' x = id' m) msgs = [m]"
  using assms
proof (induction msgs)
  case Nil
  then show ?case by simp
next
  case (Cons a msgs)
  show ?case
  proof (cases "a = m")
    case True
    have "id' m \<notin> set (map id' msgs)" using Cons.prems(1) True by simp
    then have "\<forall>x\<in>set msgs. id' x \<noteq> id' m" by (metis image_eqI set_map)
    then have "filter (\<lambda>x. id' x = id' m) msgs = []" by (simp add: filter_empty_conv)
    with True show ?thesis by simp
  next
    case False
    then have mem: "m \<in> set msgs" using Cons.prems(2) by simp
    have "id' a \<notin> set (map id' msgs)" using Cons.prems(1) by simp
    then have "id' a \<noteq> id' m" using mem by (metis image_eqI set_map)
    with mem show ?thesis using Cons by simp
  qed
qed

text \<open>Every transcript a session can produce holds entries of the two known senders only.\<close>

lemma session_knownSenders:
  assumes "knownSenders (chatMessages s)"
  shows "knownSenders (chatMessages (chatSession s ts))"
  using assms
proof (induction ts arbitrary: s)
  case Nil
  then show ?case by (simp add: chatSession_def)
next
  case (Cons t ts)
  have "knownSenders (chatMessages (sendTurn s t))"
    unfolding sendTurn_def by (rule send_knownSenders) (simp add: Cons.prems)
  then have "knownSenders (chatMessages (chatSession (sendTurn s t) ts))" by (rule Cons.IH)
  then show ?case by (simp add: chatSession_def)
qed

lemma initial_knownSenders: "knownSenders (chatMessages initialPage)"
  by (simp add: initialPage_def knownSenders_def)


text \<open>A chat turn leaves the report alone; when it fails it stores its error.\<close>

lemma consumeStream_report [simp]:
  "htmlReportContent (consumeStream b acc s cs) = htmlReportContent s"
  "analysisResultUrl (consumeStream b acc s cs) = analysisResultUrl s"
  by (induction cs arbitrary: acc s) simp_all



text \<open>A chat turn does not touch the task identifier or the timer.\<close>

lemma consumeStream_timer [simp]:
  "taskId (consumeStream b acc s cs) = taskId s"
  "pollInterval (consumeStream b acc s cs) = pollInterval s"
  by (induction cs arbitrary: acc s) simp_all

lemma timerSound_send:
  assumes "timerSound s"
  shows "timerSound (handleSendMessage s nu nb st)"
  using assms
  by (cases "failure st") (simp_all add: timerSound_def handleSendMessage_def Let_def)

section \<open>The poll cycle: completion\<close>

text \<open>
  Claim C1, as stated: whenever the last poll response is \<open>completed\<close> and carries
  \<open>html_content\<close>, the inline HTML field ends up holding that content and the remote URL
  is unset. This fails for a content that is present but is the empty string: the test
  \<open>if (data.html_content)\<close> sends it to the other branches, so the inline field stays
  \<open>null\<close>, and an \<open>html_url\<close> sent along is stored as the remote URL.
\<close>

theorem completed_empty_content_not_stored:
  "status completedEmptyContent = BE_completed
   \<and> html_content completedEmptyContent = Some []
   \<and> awaiting (pollEvents exampleStart [Tick]) = [(0, exampleTask)]
   \<and> htmlReportContent (pollEvents exampleStart ([Tick] @ [Reply 0 (PollOk (Json completedEmptyContent))]))
       = None
   \<and> analysisResultUrl (pollEvents exampleStart ([Tick] @ [Reply 0 (PollOk (Json completedEmptyContent))]))
       = Some (ascii ''http://localhost:5001/reports/abc123.html'')"
  by (simp add: example_defs run_defs BACKEND_URL_def)

text \<open>
  Claim C1, amended: take the poll events of the page in the order in which they happen,
  ticks and replies, the replies in the order of their arrival whichever request they
  answer. For every such sequence whose last event is the arrival of a \<open>completed\<close> response
  with a non-empty \<open>html_content\<close>, the final state holds that content as inline HTML, has
  no remote URL, no poll timer and no task identifier, and the status is \<open>success\<close>. A
  reply that arrives after it, to a request sent before it, is the last response of a
  longer sequence. The sequence starts in any state in which a timer exists only with a
  task identifier, which is every state the page gets into.
\<close>

theorem completed_inline_final_state:
  assumes "timerSound s" and "k < length (awaiting (pollEvents s evs))"
    and "status d = BE_completed" and "html_content d = Some c" and "c \<noteq> []"
  shows "htmlReportContent (pollEvents s (evs @ [Reply k (PollOk (Json d))])) = Some c
       \<and> analysisResultUrl (pollEvents s (evs @ [Reply k (PollOk (Json d))])) = None
       \<and> pollInterval (pollEvents s (evs @ [Reply k (PollOk (Json d))])) = None
       \<and> taskId (pollEvents s (evs @ [Reply k (PollOk (Json d))])) = None
       \<and> analysisStatus (pollEvents s (evs @ [Reply k (PollOk (Json d))])) = FE_success"
proof -
  let ?s' = "pollEvents s evs"
  let ?s0 = "?s'\<lparr> awaiting := take k (awaiting ?s') @ drop (Suc k) (awaiting ?s') \<rparr>"
  have sound: "timerSound ?s'" by (rule timerSound_events [OF assms(1)])
  obtain i tid where at: "awaiting ?s' ! k = (i, tid)" by (cases "awaiting ?s' ! k")
  have t: "truthy (html_content d)" using assms(4,5) by simp
  note fields = resume_completed_inline [OF assms(3) t, of i tid ?s0]
  have timer: "pollInterval (pollEvents s (evs @ [Reply k (PollOk (Json d))])) = None"
    unfolding pollEvents_snoc by (rule reply_timer_stopped [OF sound assms(2) at]) (rule fields(5))
  have step: "pollEvents s (evs @ [Reply k (PollOk (Json d))]) =
      pollEffect ?s' (pollResume i tid ?s0 (PollOk (Json d)))"
    unfolding pollEvents_snoc by (rule reply_step [OF assms(2) at])
  show ?thesis using timer assms(4) by (simp add: step fields)
qed

theorem completed_inline_final_state_witness:
  "timerSound exampleStart
   \<and> awaiting (pollEvents exampleStart examplePolling) = [(0, exampleTask)]
   \<and> status completedInline = BE_completed
   \<and> html_content completedInline = Some (ascii ''<h1>OK</h1>'')
   \<and> ascii ''<h1>OK</h1>'' \<noteq> []
   \<and> htmlReportContent (pollEvents exampleStart (examplePolling @ [Reply 0 (PollOk (Json completedInline))]))
       = Some (ascii ''<h1>OK</h1>'')
   \<and> analysisResultUrl (pollEvents exampleStart (examplePolling @ [Reply 0 (PollOk (Json completedInline))]))
       = None
   \<and> pollInterval (pollEvents exampleStart (examplePolling @ [Reply 0 (PollOk (Json completedInline))]))
       = None
   \<and> taskId (pollEvents exampleStart (examplePolling @ [Reply 0 (PollOk (Json completedInline))]))
       = None
   \<and> analysisStatus (pollEvents exampleStart (examplePolling @ [Reply 0 (PollOk (Json completedInline))]))
       = FE_success"
proof -
  have k: "0 < length (awaiting (pollEvents exampleStart examplePolling))"
    by (simp add: example_awaiting)
  have st: "status completedInline = BE_completed"
    and hc: "html_content completedInline = Some (ascii ''<h1>OK</h1>'')"
    and ne: "ascii ''<h1>OK</h1>'' \<noteq> []"
    by (simp_all add: completedInline_def exampleResponse_def ascii_def)
  from completed_inline_final_state [OF exampleStart_sound k st hc ne]
    exampleStart_sound example_awaiting st hc ne
  show ?thesis by simp
qed

text \<open>
  Claim C6, as stated: whenever the last poll response is \<open>completed\<close> with no
  \<open>html_content\<close> and with \<open>html_url\<close>, the remote-URL field ends up as the backend address
  followed by \<open>html_url\<close>. This fails for an \<open>html_url\<close> that is present but empty: the
  test \<open>else if (data.html_url)\<close> rejects it and no URL is stored.
\<close>

theorem completed_empty_url_not_stored:
  "status completedEmptyUrl = BE_completed
   \<and> html_content completedEmptyUrl = None
   \<and> html_url completedEmptyUrl = Some []
   \<and> awaiting (pollEvents exampleStart [Tick]) = [(0, exampleTask)]
   \<and> analysisResultUrl (pollEvents exampleStart ([Tick] @ [Reply 0 (PollOk (Json completedEmptyUrl))]))
       = None"
  by (simp add: example_defs run_defs)

text \<open>
  Claim C6, amended: for every sequence of poll events, replies in the order of their
  arrival, whose last event is the arrival of a \<open>completed\<close> response with no
  \<open>html_content\<close> and a non-empty \<open>html_url\<close>, the final state holds the backend address
  followed by \<open>html_url\<close> as remote URL, has no inline HTML, no poll timer and no task
  identifier, and the status is \<open>success\<close>.
\<close>

theorem completed_link_final_state:
  assumes "timerSound s" and "k < length (awaiting (pollEvents s evs))"
    and "status d = BE_completed" and "html_content d = None"
    and "html_url d = Some u" and "u \<noteq> []"
  shows "analysisResultUrl (pollEvents s (evs @ [Reply k (PollOk (Json d))])) = Some (BACKEND_URL @ u)
       \<and> htmlReportContent (pollEvents s (evs @ [Reply k (PollOk (Json d))])) = None
       \<and> pollInterval (pollEvents s (evs @ [Reply k (PollOk (Json d))])) = None
       \<and> taskId (pollEvents s (evs @ [Reply k (PollOk (Json d))])) = None
       \<and> analysisStatus (pollEvents s (evs @ [Reply k (PollOk (Json d))])) = FE_success"
proof -
  let ?s' = "pollEvents s evs"
  let ?s0 = "?s'\<lparr> awaiting := take k (awaiting ?s') @ drop (Suc k) (awaiting ?s') \<rparr>"
  have sound: "timerSound ?s'" by (rule timerSound_events [OF assms(1)])
  obtain i tid where at: "awaiting ?s' ! k = (i, tid)" by (cases "awaiting ?s' ! k")
  have t: "\<not> truthy (html_content d)" using assms(4) by simp
  note fields = resume_completed_link [OF assms(3) t assms(5,6), of i tid ?s0]
  have timer: "pollInterval (pollEvents s (evs @ [Reply k (PollOk (Json d))])) = None"
    unfolding pollEvents_snoc by (rule reply_timer_stopped [OF sound assms(2) at]) (rule fields(5))
  have step: "pollEvents s (evs @ [Reply k (PollOk (Json d))]) =
      pollEffect ?s' (pollResume i tid ?s0 (PollOk (Json d)))"
    unfolding pollEvents_snoc by (rule reply_step [OF assms(2) at])
  show ?thesis using timer by (simp add: step fields)
qed

theorem completed_link_final_state_witness:
  "timerSound exampleStart
   \<and> awaiting (pollEvents exampleStart examplePolling) = [(0, exampleTask)]
   \<and> status completedLink = BE_completed
   \<and> html_content completedLink = None
   \<and> html_url completedLink = Some (ascii ''/reports/abc123.html'')
   \<and> ascii ''/reports/abc123.html'' \<noteq> []
   \<and> analysisResultUrl (pollEvents exampleStart (examplePolling @ [Reply 0 (PollOk (Json completedLink))]))
       = Some (ascii ''http://localhost:5001/reports/abc123.html'')
   \<and> htmlReportContent (pollEvents exampleStart (examplePolling @ [Reply 0 (PollOk (Json completedLink))]))
       = None
   \<and> pollInterval (pollEvents exampleStart (examplePolling @ [Reply 0 (PollOk (Json completedLink))]))
       = None
   \<and> taskId (pollEvents exampleStart (examplePolling @ [Reply 0 (PollOk (Json completedLink))]))
       = None"
proof -
  have k: "0 < length (awaiting (pollEvents exampleStart examplePolling))"
    by (simp add: example_awaiting)
  have st: "status completedLink = BE_completed"
    and hc: "html_content completedLink = None"
    and hu: "html_url completedLink = Some (ascii ''/reports/abc123.html'')"
    and ne: "ascii ''/reports/abc123.html'' \<noteq> []"
    by (simp_all add: completedLink_def exampleResponse_def ascii_def)
  have url: "BACKEND_URL @ ascii ''/reports/abc123.html'' = ascii ''http://localhost:5001/reports/abc123.html''"
    by (simp add: BACKEND_URL_def ascii_def)
  from completed_link_final_state [OF exampleStart_sound k st hc hu ne]
    exampleStart_sound example_awaiting st hc hu ne url
  show ?thesis by simp
qed

section \<open>The poll cycle: failure\<close>

text \<open>
  Claim C4, as stated: after a last response \<open>failed\<close> the stored error is \<open>error_details\<close>
  when present and the \<open>message\<close> field otherwise. The code evaluates
  \<open>data.error_details || data.message || <fixed text>\<close>, so with no \<open>error_details\<close> and an
  empty \<open>message\<close> the stored error is the fixed text ("an unknown error occurred during the
  analysis"), not the message.
\<close>

theorem failed_empty_message_fallback:
  "status failedSilent = BE_failed
   \<and> error_details failedSilent = None
   \<and> awaiting (pollEvents exampleStart [Tick]) = [(0, exampleTask)]
   \<and> errorMessage (pollEvents exampleStart ([Tick] @ [Reply 0 (PollOk (Json failedSilent))]))
       \<noteq> Some (message failedSilent)
   \<and> errorMessage (pollEvents exampleStart ([Tick] @ [Reply 0 (PollOk (Json failedSilent))]))
       = Some msgUnknownError"
  by (simp add: example_defs run_defs msgUnknownError_def)

text \<open>
  Claim C4, amended: for every sequence of poll events, replies in the order of their
  arrival, whose last event is the arrival of a \<open>failed\<close> response, the poll timer is gone,
  the task identifier is cleared, the status is \<open>error\<close>, and the stored error is
  \<open>error_details\<close> when that is present and not empty, otherwise \<open>message\<close> when that is not
  empty, otherwise the fixed fallback text.
\<close>

theorem failed_final_state:
  assumes "timerSound s" and "k < length (awaiting (pollEvents s evs))"
    and "status d = BE_failed"
  shows "pollInterval (pollEvents s (evs @ [Reply k (PollOk (Json d))])) = None
       \<and> taskId (pollEvents s (evs @ [Reply k (PollOk (Json d))])) = None
       \<and> analysisStatus (pollEvents s (evs @ [Reply k (PollOk (Json d))])) = FE_error
       \<and> (\<forall>e. error_details d = Some e \<and> e \<noteq> [] \<longrightarrow>
             errorMessage (pollEvents s (evs @ [Reply k (PollOk (Json d))])) = Some e)
       \<and> (\<not> truthy (error_details d) \<and> message d \<noteq> [] \<longrightarrow>
             errorMessage (pollEvents s (evs @ [Reply k (PollOk (Json d))])) = Some (message d))
       \<and> (\<not> truthy (error_details d) \<and> message d = [] \<longrightarrow>
             errorMessage (pollEvents s (evs @ [Reply k (PollOk (Json d))])) = Some msgUnknownError)"
proof -
  let ?s' = "pollEvents s evs"
  let ?s0 = "?s'\<lparr> awaiting := take k (awaiting ?s') @ drop (Suc k) (awaiting ?s') \<rparr>"
  let ?final = "pollEvents s (evs @ [Reply k (PollOk (Json d))])"
  have sound: "timerSound ?s'" by (rule timerSound_events [OF assms(1)])
  obtain i tid where at: "awaiting ?s' ! k = (i, tid)" by (cases "awaiting ?s' ! k")
  note fields = resume_failed [OF assms(3), of i tid ?s0]
  have timer: "pollInterval ?final = None"
    unfolding pollEvents_snoc by (rule reply_timer_stopped [OF sound assms(2) at]) (rule fields(5))
  have step: "?final = pollEffect ?s' (pollResume i tid ?s0 (PollOk (Json d)))"
    unfolding pollEvents_snoc by (rule reply_step [OF assms(2) at])
  have err: "errorMessage ?final = Some (orElse (error_details d) (strOr (message d) msgUnknownError))"
    by (simp add: step fields)
  have "taskId ?final = None" and "analysisStatus ?final = FE_error"
    by (simp_all add: step fields)
  moreover have "\<forall>e. error_details d = Some e \<and> e \<noteq> [] \<longrightarrow> errorMessage ?final = Some e"
    by (simp add: err orElse_def)
  moreover have "\<not> truthy (error_details d) \<and> message d \<noteq> [] \<longrightarrow>
      errorMessage ?final = Some (message d)"
    by (cases "error_details d") (simp_all add: err orElse_def strOr_def)
  moreover have "\<not> truthy (error_details d) \<and> message d = [] \<longrightarrow>
      errorMessage ?final = Some msgUnknownError"
    by (cases "error_details d") (simp_all add: err orElse_def strOr_def)
  ultimately show ?thesis using timer by blast
qed

theorem failed_final_state_witness:
  "timerSound exampleStart
   \<and> awaiting (pollEvents exampleStart examplePolling) = [(0, exampleTask)]
   \<and> status failedParse = BE_failed \<and> status failedSilent = BE_failed
   \<and> error_details failedParse = Some (ascii ''parse error'') \<and> ascii ''parse error'' \<noteq> []
   \<and> \<not> truthy (error_details failedSilent) \<and> message failedSilent = []
   \<and> \<not> truthy (error_details (failedSilent\<lparr> message := ascii ''boom'' \<rparr>))
   \<and> message (failedSilent\<lparr> message := ascii ''boom'' \<rparr>) \<noteq> []
   \<and> errorMessage (pollEvents exampleStart (examplePolling @ [Reply 0 (PollOk (Json failedParse))]))
       = Some (ascii ''parse error'')
   \<and> errorMessage (pollEvents exampleStart (examplePolling @ [Reply 0 (PollOk (Json failedSilent))]))
       = Some msgUnknownError
   \<and> errorMessage (pollEvents exampleStart
        (examplePolling @ [Reply 0 (PollOk (Json (failedSilent\<lparr> message := ascii ''boom'' \<rparr>)))]))
       = Some (ascii ''boom'')
   \<and> analysisStatus (pollEvents exampleStart (examplePolling @ [Reply 0 (PollOk (Json failedParse))]))
       = FE_error
   \<and> pollInterval (pollEvents exampleStart (examplePolling @ [Reply 0 (PollOk (Json failedParse))]))
       = None
   \<and> taskId (pollEvents exampleStart (examplePolling @ [Reply 0 (PollOk (Json failedParse))]))
       = None"
proof -
  have k: "0 < length (awaiting (pollEvents exampleStart examplePolling))"
    by (simp add: example_awaiting)
  have st: "status failedParse = BE_failed" "status failedSilent = BE_failed"
    "status (failedSilent\<lparr> message := ascii ''boom'' \<rparr>) = BE_failed"
    by (simp_all add: failedParse_def failedSilent_def exampleResponse_def)
  have facts: "error_details failedParse = Some (ascii ''parse error'')" "ascii ''parse error'' \<noteq> []"
    "\<not> truthy (error_details failedSilent)" "message failedSilent = []"
    "\<not> truthy (error_details (failedSilent\<lparr> message := ascii ''boom'' \<rparr>))"
    "message (failedSilent\<lparr> message := ascii ''boom'' \<rparr>) = ascii ''boom''"
    "ascii ''boom'' \<noteq> []"
    by (simp_all add: failedParse_def failedSilent_def exampleResponse_def ascii_def)
  from failed_final_state [OF exampleStart_sound k st(1)]
    failed_final_state [OF exampleStart_sound k st(2)]
    failed_final_state [OF exampleStart_sound k st(3)]
    exampleStart_sound example_awaiting st facts
  show ?thesis by simp
qed

section \<open>The poll cycle: an unknown task\<close>

text \<open>
  Claim C5, as stated: a poll answered with HTTP status 404 stores a message that is
  distinct from other transport failures. A failure that brings a text of its own (the
  \<open>error\<close> field of the body, the message of a thrown \<open>Error\<close>) has that text stored as it
  is, so it can be the same text: a reply with status 500 whose body says what the page
  says for a 404 of this task stores the same message as the 404.
\<close>

theorem server_error_can_match_not_found:
  "awaiting (pollEvents exampleStart examplePolling) = [(0, exampleTask)]
   \<and> serverErrorSameText = PollNotOk 500 (Json (Some (notFoundText exampleTask)))
   \<and> errorMessage (pollEvent (pollEvents exampleStart examplePolling) (Reply 0 (PollNotOk 404 (Json None))))
       = Some (notFoundText exampleTask)
   \<and> errorMessage (pollEvent (pollEvents exampleStart examplePolling) (Reply 0 serverErrorSameText))
       = Some (notFoundText exampleTask)"
  by (simp add: example_awaiting serverErrorSameText_def pollResume_def orElse_def
      notFoundText_def notFoundPrefix_def)

text \<open>
  Claim C5, amended: when the reply to a poll has HTTP status 404, the page stores the
  text "Task ID <id> not found. It may have expired or the backend service may have
  restarted.", with the task identifier the callback closed over, whatever the body; it
  sets the status \<open>error\<close> and clears the task identifier, no timer is left, and whatever
  poll events follow, none sends a request or brings task identifier or timer back. Every
  other transport failure stores the text it brings itself (the body's \<open>error\<close> field, the
  thrown \<open>Error\<close>'s message), and when it brings none, one of the page's two other texts,
  "HTTP error! status: <status>" or "Fetching the analysis status failed.", which both
  differ from the text for a 404.
\<close>

theorem not_found_is_terminal:
  assumes "timerSound s" and "k < length (awaiting s)" and "snd (awaiting s ! k) = tid"
  shows "errorMessage (pollEvent s (Reply k (PollNotOk 404 body))) =
           Some ([0x4EFB, 0x52A1] @ ascii ''ID '' @ tid @ ascii '' ''
                 @ [0x672A, 0x627E, 0x5230, 0x3002, 0x53EF, 0x80FD, 0x5DF2, 0x8FC7, 0x671F, 0x6216,
                    0x540E, 0x7AEF, 0x670D, 0x52A1, 0x5DF2, 0x91CD, 0x542F, 0x3002])
       \<and> analysisStatus (pollEvent s (Reply k (PollNotOk 404 body))) = FE_error
       \<and> taskId (pollEvent s (Reply k (PollNotOk 404 body))) = None
       \<and> pollInterval (pollEvent s (Reply k (PollNotOk 404 body))) = None
       \<and> taskId (pollEvents (pollEvent s (Reply k (PollNotOk 404 body))) later) = None
       \<and> pollInterval (pollEvents (pollEvent s (Reply k (PollNotOk 404 body))) later) = None
       \<and> netLog (pollEvents (pollEvent s (Reply k (PollNotOk 404 body))) later) = netLog s
       \<and> (st \<noteq> 404 \<longrightarrow>
            errorMessage (pollEvent s (Reply k (PollNotOk st (Json e)))) =
              Some (orElse e (ascii ''HTTP error! status: '' @ numberToString st)))
       \<and> (st \<noteq> 404 \<longrightarrow>
            errorMessage (pollEvent s (Reply k (PollNotOk st (JsonThrows t)))) =
              Some (errorText t [0x83B7, 0x53D6, 0x5206, 0x6790, 0x72B6, 0x6001, 0x5931, 0x8D25, 0x3002]))
       \<and> errorMessage (pollEvent s (Reply k (PollFetchThrows t))) =
            Some (errorText t [0x83B7, 0x53D6, 0x5206, 0x6790, 0x72B6, 0x6001, 0x5931, 0x8D25, 0x3002])
       \<and> errorMessage (pollEvent s (Reply k (PollOk (JsonThrows t)))) =
            Some (errorText t [0x83B7, 0x53D6, 0x5206, 0x6790, 0x72B6, 0x6001, 0x5931, 0x8D25, 0x3002])
       \<and> ascii ''HTTP error! status: '' @ numberToString st \<noteq>
            [0x4EFB, 0x52A1] @ ascii ''ID '' @ tid @ ascii '' ''
            @ [0x672A, 0x627E, 0x5230, 0x3002, 0x53EF, 0x80FD, 0x5DF2, 0x8FC7, 0x671F, 0x6216,
               0x540E, 0x7AEF, 0x670D, 0x52A1, 0x5DF2, 0x91CD, 0x542F, 0x3002]
       \<and> [0x83B7, 0x53D6, 0x5206, 0x6790, 0x72B6, 0x6001, 0x5931, 0x8D25, 0x3002] \<noteq>
            [0x4EFB, 0x52A1] @ ascii ''ID '' @ tid @ ascii '' ''
            @ [0x672A, 0x627E, 0x5230, 0x3002, 0x53EF, 0x80FD, 0x5DF2, 0x8FC7, 0x671F, 0x6216,
               0x540E, 0x7AEF, 0x670D, 0x52A1, 0x5DF2, 0x91CD, 0x542F, 0x3002]"
proof -
  let ?s0 = "s\<lparr> awaiting := take k (awaiting s) @ drop (Suc k) (awaiting s) \<rparr>"
  let ?nf = "PollNotOk 404 body"
  obtain i where at: "awaiting s ! k = (i, tid)" using assms(3) by (cases "awaiting s ! k") simp
  have nftext: "[0x4EFB, 0x52A1] @ ascii ''ID '' @ tid @ ascii '' ''
      @ [0x672A, 0x627E, 0x5230, 0x3002, 0x53EF, 0x80FD, 0x5DF2, 0x8FC7, 0x671F, 0x6216,
         0x540E, 0x7AEF, 0x670D, 0x52A1, 0x5DF2, 0x91CD, 0x542F, 0x3002] = notFoundText tid"
    by (simp add: notFoundText_def notFoundPrefix_def notFoundSuffix_def)
  have fallback: "[0x83B7, 0x53D6, 0x5206, 0x6790, 0x72B6, 0x6001, 0x5931, 0x8D25, 0x3002] = msgStatusFetchFailed"
    by (simp add: msgStatusFetchFailed_def)
  have http: "ascii ''HTTP error! status: '' @ numberToString st = httpErrorText st"
    by (simp add: httpErrorText_def)
  have stored: "errorMessage (pollEvent s (Reply k r)) = Some (errorText x msgStatusFetchFailed)"
    if "pollOutcome tid r = Inl x" for r x
    unfolding reply_step [OF assms(2) at] by (simp add: resume_thrown [OF that])
  have nf: "pollOutcome tid ?nf = Inl (ErrorInstance (notFoundText tid))" by simp
  have gone: "taskId (pollEvent s (Reply k ?nf)) = None"
    and err: "analysisStatus (pollEvent s (Reply k ?nf)) = FE_error"
    and log: "netLog (pollEvent s (Reply k ?nf)) = netLog s"
    unfolding reply_step [OF assms(2) at] by (simp_all add: resume_thrown [OF nf])
  have timer: "pollInterval (pollEvent s (Reply k ?nf)) = None"
    by (rule reply_timer_stopped [OF assms(1,2) at]) (rule resume_thrown(5) [OF nf])
  note after = stopped_events [OF gone timer, of later]
  have a: "errorMessage (pollEvent s (Reply k ?nf)) = Some (notFoundText tid)"
    using stored [OF nf] by simp
  have b: "st \<noteq> 404 \<longrightarrow> errorMessage (pollEvent s (Reply k (PollNotOk st (Json e))))
      = Some (orElse e (httpErrorText st))"
  proof
    assume "st \<noteq> 404"
    then have "pollOutcome tid (PollNotOk st (Json e)) = Inl (ErrorInstance (orElse e (httpErrorText st)))"
      by simp
    from stored [OF this] show "errorMessage (pollEvent s (Reply k (PollNotOk st (Json e))))
      = Some (orElse e (httpErrorText st))" by simp
  qed
  have c: "st \<noteq> 404 \<longrightarrow> errorMessage (pollEvent s (Reply k (PollNotOk st (JsonThrows t))))
      = Some (errorText t msgStatusFetchFailed)"
  proof
    assume "st \<noteq> 404"
    then have "pollOutcome tid (PollNotOk st (JsonThrows t)) = Inl t" by simp
    then show "errorMessage (pollEvent s (Reply k (PollNotOk st (JsonThrows t))))
      = Some (errorText t msgStatusFetchFailed)" by (rule stored)
  qed
  have d: "errorMessage (pollEvent s (Reply k (PollFetchThrows t))) = Some (errorText t msgStatusFetchFailed)"
    by (rule stored) simp
  have e: "errorMessage (pollEvent s (Reply k (PollOk (JsonThrows t)))) = Some (errorText t msgStatusFetchFailed)"
    by (rule stored) simp
  have f: "httpErrorText st \<noteq> notFoundText tid" using notFoundText_not_http [of tid st] by simp
  have g: "msgStatusFetchFailed \<noteq> notFoundText tid" using notFoundText_not_fallback [of tid] by simp
  show ?thesis
    unfolding nftext fallback http
    using a err gone timer after log b c d e f g by simp
qed

theorem not_found_is_terminal_witness:
  "timerSound (pollEvents exampleStart examplePolling)
   \<and> awaiting (pollEvents exampleStart examplePolling) = [(0, exampleTask)]
   \<and> errorMessage (pollEvent (pollEvents exampleStart examplePolling) (Reply 0 (PollNotOk 404 (Json None)))) =
       Some ([0x4EFB, 0x52A1] @ ascii ''ID abc123 ''
             @ [0x672A, 0x627E, 0x5230, 0x3002, 0x53EF, 0x80FD, 0x5DF2, 0x8FC7, 0x671F, 0x6216,
                0x540E, 0x7AEF, 0x670D, 0x52A1, 0x5DF2, 0x91CD, 0x542F, 0x3002])
   \<and> analysisStatus (pollEvent (pollEvents exampleStart examplePolling) (Reply 0 (PollNotOk 404 (Json None))))
       = FE_error
   \<and> taskId (pollEvent (pollEvents exampleStart examplePolling) (Reply 0 (PollNotOk 404 (Json None)))) = None
   \<and> pollInterval (pollEvent (pollEvents exampleStart examplePolling) (Reply 0 (PollNotOk 404 (Json None))))
       = None
   \<and> netLog (pollEvents (pollEvent (pollEvents exampleStart examplePolling) (Reply 0 (PollNotOk 404 (Json None))))
        [Tick, Tick]) = netLog (pollEvents exampleStart examplePolling)
   \<and> (500::int) \<noteq> 404
   \<and> errorMessage (pollEvent (pollEvents exampleStart examplePolling) (Reply 0 (PollNotOk 500 (Json None)))) =
       Some (ascii ''HTTP error! status: '' @ numberToString 500)
   \<and> errorMessage (pollEvent (pollEvents exampleStart examplePolling) (Reply 0 (PollNotOk 500 (JsonThrows NonError)))) =
       Some [0x83B7, 0x53D6, 0x5206, 0x6790, 0x72B6, 0x6001, 0x5931, 0x8D25, 0x3002]"
proof -
  have sound: "timerSound (pollEvents exampleStart examplePolling)"
    by (rule timerSound_events [OF exampleStart_sound])
  have k: "0 < length (awaiting (pollEvents exampleStart examplePolling))"
    and tid: "snd (awaiting (pollEvents exampleStart examplePolling) ! 0) = exampleTask"
    by (simp_all add: example_awaiting)
  have st: "(500::int) \<noteq> 404" by simp
  from not_found_is_terminal [OF sound k tid, of "Json None" "[Tick, Tick]" 500 None NonError]
    sound example_awaiting st
  show ?thesis by (simp add: exampleTask_def ascii_def orElse_def)
qed

section \<open>The invariant of the data model\<close>




section \<open>Blank input\<close>

text \<open>
  Claim C3, as stated: for a blank input both \<open>handleStartAnalysis\<close> and
  \<open>handleSendMessage\<close> send nothing and report a validation error. \<open>handleSendMessage\<close> sends
  nothing, but it returns at once (\<open>if (!userInput.trim()) return;\<close>) and reports nothing:
  after three spaces are sent the page, its error message and its status line included, is
  what it was.
\<close>

theorem blank_chat_input_reports_nothing:
  "userInput exampleBlank = ascii ''   ''
   \<and> trim (userInput exampleBlank) = []
   \<and> errorMessage exampleBlank = None
   \<and> errorMessage (handleSendMessage exampleBlank 1000 1000 exampleReply) = None
   \<and> statusMessage (handleSendMessage exampleBlank 1000 1000 exampleReply) = statusMessage exampleBlank
   \<and> chatMessages (handleSendMessage exampleBlank 1000 1000 exampleReply) = []"
  by (simp add: exampleBlank_def exampleDone_def example_defs run_defs handleSendMessage_def)

text \<open>
  Claim C3, amended: for every empty or whitespace-only input, \<open>handleStartAnalysis\<close> sends
  no request and stores the validation error "the report requirement must not be empty";
  \<open>handleSendMessage\<close> sends no request and leaves the whole page state unchanged.
\<close>

theorem blank_input_sends_nothing:
  assumes "\<forall>c\<in>set (reportRequirementsInput p). isWhiteSpace c"
    and "\<forall>c\<in>set (userInput q). isWhiteSpace c"
  shows "netLog (handleStartAnalysis p r) = netLog p
       \<and> errorMessage (handleStartAnalysis p r) = Some msgRequirementsEmpty
       \<and> handleSendMessage q nowUser nowBot st = q"
proof -
  have "trim (reportRequirementsInput p) = []" using assms(1) by (simp add: trim_empty_iff)
  then have "netLog (handleStartAnalysis p r) = netLog p"
    and "errorMessage (handleStartAnalysis p r) = Some msgRequirementsEmpty"
    by (simp_all add: handleStartAnalysis_def beginAnalysis_def)
  moreover have "trim (userInput q) = []" using assms(2) by (simp add: trim_empty_iff)
  then have "handleSendMessage q nowUser nowBot st = q" by (rule send_blank)
  ultimately show ?thesis by simp
qed

theorem blank_input_sends_nothing_witness:
  "list_all isWhiteSpace (reportRequirementsInput exampleBlank)
   \<and> list_all isWhiteSpace (userInput exampleBlank)
   \<and> netLog (handleStartAnalysis exampleBlank (StartOk (Json (Some exampleTask)))) = netLog exampleBlank
   \<and> errorMessage (handleStartAnalysis exampleBlank (StartOk (Json (Some exampleTask)))) = Some msgRequirementsEmpty
   \<and> handleSendMessage exampleBlank 1000 1000 exampleReply = exampleBlank"
proof -
  have a: "\<forall>c\<in>set (reportRequirementsInput exampleBlank). isWhiteSpace c"
    and b: "\<forall>c\<in>set (userInput exampleBlank). isWhiteSpace c"
    by (simp_all add: exampleBlank_def ascii_def isWhiteSpace_def)
  from blank_input_sends_nothing [OF a b] a b show ?thesis by (simp add: list_all_iff)
qed

text \<open>
  Claim C10: when \<open>handleStartAnalysis\<close> rejects a blank prompt it has already run its first
  five state updates, which enter the status \<open>loading\<close> and clear the previous error, remote
  URL and inline HTML; the rejection then sets the status \<open>idle\<close> and the validation error.
  So the previous results are gone although no request was sent.
\<close>

theorem blank_submit_discards_results:
  assumes "\<forall>c\<in>set (reportRequirementsInput s). isWhiteSpace c"
  shows "analysisStatus (beginAnalysis s) = FE_loading
       \<and> errorMessage (beginAnalysis s) = None
       \<and> analysisResultUrl (beginAnalysis s) = None
       \<and> htmlReportContent (beginAnalysis s) = None
       \<and> handleStartAnalysis s r =
           pollEffect s ((beginAnalysis s)\<lparr> analysisStatus := FE_idle,
                            errorMessage := Some msgRequirementsEmpty,
                            statusMessage := msgEnterRequirements \<rparr>)
       \<and> analysisStatus (handleStartAnalysis s r) = FE_idle
       \<and> analysisResultUrl (handleStartAnalysis s r) = None
       \<and> htmlReportContent (handleStartAnalysis s r) = None
       \<and> errorMessage (handleStartAnalysis s r) = Some msgRequirementsEmpty
       \<and> netLog (handleStartAnalysis s r) = netLog s"
proof -
  have blank: "trim (reportRequirementsInput s) = []" using assms by (simp add: trim_empty_iff)
  have "handleStartAnalysis s r =
      pollEffect s ((beginAnalysis s)\<lparr> analysisStatus := FE_idle,
                       errorMessage := Some msgRequirementsEmpty,
                       statusMessage := msgEnterRequirements \<rparr>)"
    using blank by (simp add: handleStartAnalysis_def)
  then show ?thesis by (simp add: beginAnalysis_def)
qed

theorem blank_submit_discards_results_witness:
  "list_all isWhiteSpace (reportRequirementsInput exampleBlank)
   \<and> analysisStatus exampleBlank = FE_success
   \<and> htmlReportContent exampleBlank = Some (ascii ''<h1>OK</h1>'')
   \<and> analysisStatus (beginAnalysis exampleBlank) = FE_loading
   \<and> analysisStatus (handleStartAnalysis exampleBlank (StartOk (Json (Some exampleTask)))) = FE_idle
   \<and> htmlReportContent (handleStartAnalysis exampleBlank (StartOk (Json (Some exampleTask)))) = None
   \<and> analysisResultUrl (handleStartAnalysis exampleBlank (StartOk (Json (Some exampleTask)))) = None
   \<and> netLog (handleStartAnalysis exampleBlank (StartOk (Json (Some exampleTask)))) = netLog exampleBlank"
proof -
  have a: "\<forall>c\<in>set (reportRequirementsInput exampleBlank). isWhiteSpace c"
    by (simp add: exampleBlank_def ascii_def isWhiteSpace_def)
  have before: "analysisStatus exampleBlank = FE_success"
    "htmlReportContent exampleBlank = Some (ascii ''<h1>OK</h1>'')"
    by (simp_all add: exampleBlank_def exampleDone_def example_defs run_defs)
  from blank_submit_discards_results [OF a, of "StartOk (Json (Some exampleTask))"] a before
  show ?thesis by (simp add: beginAnalysis_def list_all_iff)
qed


section \<open>The streamed reply\<close>



section \<open>The history sent with a chat request\<close>

text \<open>
  Claim C8: the request of a chat turn carries the system message if there is a report,
  then the last six of the prior transcript entries whose trimmed text is not empty, of
  either sender and in transcript order, then the new user turn. The transcript holds only
  entries of sender \<open>'user'\<close> and \<open>'bot'\<close>, the two the page writes.
\<close>

theorem history_is_last_six_nonempty:
  assumes "trim (userInput s) \<noteq> []" and "knownSenders (chatMessages s)"
  shows "netLog (handleSendMessage s nowUser nowBot st) =
           netLog s @ [ChatCompletionRequest
             (systemMessages s @ map asParam (lastSixNonEmpty (chatMessages s))
                @ [\<lparr> role = User, content = userInput s \<rparr>])]
       \<and> length (lastSixNonEmpty (chatMessages s)) \<le> 6"
proof -
  have "length (lastSixNonEmpty (chatMessages s)) \<le> 6"
    by (simp add: lastSixNonEmpty_def Let_def)
  then show ?thesis
    by (simp add: send_netLog [OF assms(1)] historyMessages_spec [OF assms(2)])
qed

theorem history_is_last_six_nonempty_witness:
  "trim (userInput exampleChat) \<noteq> [] \<and> knownSenders (chatMessages exampleChat)
   \<and> length (chatMessages exampleChat) = 8
   \<and> lastSixNonEmpty (chatMessages exampleChat) = drop 2 eightEntries
   \<and> netLog (handleSendMessage exampleChat 5000 5001 exampleReply) =
       netLog exampleChat @ [ChatCompletionRequest
         (systemMessages exampleChat @ map asParam (drop 2 eightEntries)
            @ [\<lparr> role = User, content = ascii ''q5'' \<rparr>])]"
proof -
  have a: "trim (userInput exampleChat) \<noteq> []"
    by (simp add: exampleChat_def ascii_def trim_def isWhiteSpace_def)
  have b: "knownSenders (chatMessages exampleChat)"
    by (simp add: exampleChat_def eightEntries_def knownSenders_def)
  have c: "length (chatMessages exampleChat) = 8"
    by (simp add: exampleChat_def eightEntries_def)
  have d: "lastSixNonEmpty (chatMessages exampleChat) = drop 2 eightEntries"
    by (simp add: exampleChat_def eightEntries_def lastSixNonEmpty_def ascii_def trim_def isWhiteSpace_def)
  have e: "userInput exampleChat = ascii ''q5''" by (simp add: exampleChat_def)
  from history_is_last_six_nonempty [OF a b, of 5000 5001 exampleReply] a b c d e
  show ?thesis by simp
qed

section \<open>Identifiers of transcript entries\<close>

text \<open>
  Claim C9, as stated: any two entries appended during a session have distinct identifiers.
  An identifier is \<open>user-\<close> or \<open>bot-\<close> followed by the reading of \<open>Date.now()\<close>, so two turns
  sent while the clock shows the same millisecond get the same identifiers, and the
  update by identifier of the second reply also overwrites the first reply.
\<close>

theorem same_clock_turns_share_ids:
  "chatMessages exampleDone = []
   \<and> map id' (chatMessages (chatSession exampleDone [exampleTurn, sameClockTurn])) =
       [userMessageId 1000, botMessageIdOf 1000, userMessageId 1000, botMessageIdOf 1000]
   \<and> \<not> distinct (map id' (chatMessages (chatSession exampleDone [exampleTurn, sameClockTurn])))
   \<and> map text' (chatMessages (chatSession exampleDone [exampleTurn])) = [ascii ''hi'', ascii ''Hello'']
   \<and> map text' (chatMessages (chatSession exampleDone [exampleTurn, sameClockTurn])) =
       [ascii ''hi'', ascii ''Sure'', ascii ''more'', ascii ''Sure'']"
proof -
  have empty: "chatMessages exampleDone = []"
    by (simp add: exampleDone_def example_defs run_defs)
  have nb: "trim (ascii ''hi'') \<noteq> []" "trim (ascii ''more'') \<noteq> []"
    by (simp_all add: ascii_def trim_def isWhiteSpace_def)
  have ids: "map id' (chatMessages (chatSession exampleDone [exampleTurn, sameClockTurn])) =
      [userMessageId 1000, botMessageIdOf 1000, userMessageId 1000, botMessageIdOf 1000]"
    by (simp add: chatSession_ids empty sentTurns_def turnIds_def exampleTurn_def sameClockTurn_def nb)
  have one: "map text' (chatMessages (chatSession exampleDone [exampleTurn])) = [ascii ''hi'', ascii ''Hello'']"
    by (simp add: chatSession_def sendTurn_def exampleTurn_def exampleReply_def send_chatMessages nb empty
        contentDelta_def orElse_def setTextById_def user_bot_ids_differ ascii_def
        trim_def isWhiteSpace_def)
  have two: "map text' (chatMessages (chatSession exampleDone [exampleTurn, sameClockTurn])) =
      [ascii ''hi'', ascii ''Sure'', ascii ''more'', ascii ''Sure'']"
    by (simp add: chatSession_def sendTurn_def exampleTurn_def sameClockTurn_def exampleReply_def
        send_chatMessages nb empty contentDelta_def orElse_def setTextById_def user_bot_ids_differ ascii_def
        trim_def isWhiteSpace_def)
  show ?thesis using empty ids one two by simp
qed

text \<open>
  Claim C9, amended: in a session that starts with an empty transcript, if the clock
  readings taken for the user entries of the turns sent are pairwise different, and so are
  those taken for the bot entries, then all entries have distinct identifiers, and a lookup
  by the identifier of an entry finds that entry only. The two entries of one turn differ in
  their identifiers whatever the clock shows.
\<close>

theorem ids_distinct_when_clock_differs:
  assumes "chatMessages s = []"
    and "distinct (map clockUser (sentTurns ts))" and "distinct (map clockBot (sentTurns ts))"
  shows "distinct (map id' (chatMessages (chatSession s ts)))
       \<and> (\<forall>m\<in>set (chatMessages (chatSession s ts)).
             filter (\<lambda>x. id' x = id' m) (chatMessages (chatSession s ts)) = [m])
       \<and> (\<forall>t. distinct (turnIds t))"
proof -
  have d: "distinct (map id' (chatMessages (chatSession s ts)))"
    by (simp add: chatSession_ids assms(1) turnIds_distinct [OF assms(2,3)])
  moreover have "\<forall>m\<in>set (chatMessages (chatSession s ts)).
      filter (\<lambda>x. id' x = id' m) (chatMessages (chatSession s ts)) = [m]"
    using distinct_ids_unique_target [OF d] by blast
  moreover have "\<forall>t. distinct (turnIds t)"
    by (simp add: turnIds_def user_bot_ids_differ)
  ultimately show ?thesis by blast
qed

theorem ids_distinct_when_clock_differs_witness:
  "chatMessages exampleDone = []
   \<and> distinct (map clockUser (sentTurns [exampleTurn, laterTurn]))
   \<and> distinct (map clockBot (sentTurns [exampleTurn, laterTurn]))
   \<and> length (chatMessages (chatSession exampleDone [exampleTurn, laterTurn])) = 4
   \<and> distinct (map id' (chatMessages (chatSession exampleDone [exampleTurn, laterTurn])))
   \<and> distinct (turnIds exampleTurn)"
proof -
  have empty: "chatMessages exampleDone = []"
    by (simp add: exampleDone_def example_defs run_defs)
  have nb: "trim (ascii ''hi'') \<noteq> []" "trim (ascii ''more'') \<noteq> []"
    by (simp_all add: ascii_def trim_def isWhiteSpace_def)
  have sent: "sentTurns [exampleTurn, laterTurn] = [exampleTurn, laterTurn]"
    by (simp add: sentTurns_def exampleTurn_def laterTurn_def nb)
  have cu: "distinct (map clockUser (sentTurns [exampleTurn, laterTurn]))"
    and cb: "distinct (map clockBot (sentTurns [exampleTurn, laterTurn]))"
    unfolding sent by (simp_all add: exampleTurn_def laterTurn_def)
  have len: "length (chatMessages (chatSession exampleDone [exampleTurn, laterTurn])) = 4"
    using arg_cong [OF chatSession_ids [of exampleDone "[exampleTurn, laterTurn]"], of length]
    by (simp add: empty sent turnIds_def)
  from ids_distinct_when_clock_differs [OF empty cu cb] empty cu cb len
  show ?thesis by simp
qed


end
